theory Spec2Isabelle
  imports Complex_Main
begin

section \<open>Errors and results\<close>

text \<open>
  The Python exceptions the graph builders can raise while the graph is constructed.
  \<open>ValueError\<close> stands for the shape errors the tensor engine raises.
\<close>

datatype error = AssertionError | ValueError | IndexError | NameError | OverflowError | AttributeError

type_synonym 'a result = "error + 'a"

definition bindE :: "'a result \<Rightarrow> ('a \<Rightarrow> 'b result) \<Rightarrow> 'b result" where
  "bindE m f = (case m of Inl e \<Rightarrow> Inl e | Inr v \<Rightarrow> f v)"

section \<open>Tensors\<close>

text \<open>
  Activations are nested lists in the layout of the source: rank 2 is [minibatch, features],
  rank 4 is [minibatch, channel, height, width] (NCHW). Arithmetic is exact (real numbers);
  casts between floating point types are the identity.
\<close>

type_synonym t2 = "real list list"
type_synonym t3 = "real list list list"
type_synonym t4 = "real list list list list"

datatype tensor = T2 t2 | T4 t4

definition same_shape2 :: "t2 \<Rightarrow> t2 \<Rightarrow> bool" where
  "same_shape2 a b = list_all2 (\<lambda>r s. length r = length s) a b"

definition same_shape4 :: "t4 \<Rightarrow> t4 \<Rightarrow> bool" where
  "same_shape4 a b = list_all2 (list_all2 same_shape2) a b"

fun same_shape :: "tensor \<Rightarrow> tensor \<Rightarrow> bool" where
  "same_shape (T2 a) (T2 b) = same_shape2 a b"
| "same_shape (T4 a) (T4 b) = same_shape4 a b"
| "same_shape _ _ = False"

text \<open>
  An elementwise binary operation of the tensor engine on two tensors of one shape.
  Operands of different shapes raise (broadcasting of unit dimensions is not modelled:
  the networks only combine tensors of one shape).
\<close>

definition ew2 :: "(real \<Rightarrow> real \<Rightarrow> real) \<Rightarrow> tensor \<Rightarrow> tensor \<Rightarrow> tensor result" where
  "ew2 f a b =
     (if same_shape a b then
        (case (a, b) of
           (T2 x, T2 y) \<Rightarrow> Inr (T2 (map2 (map2 f) x y))
         | (T4 x, T4 y) \<Rightarrow> Inr (T4 (map2 (map2 (map2 (map2 f))) x y))
         | _ \<Rightarrow> Inl ValueError)
      else Inl ValueError)"

text \<open>An elementwise unary operation (also: an operation with a scalar operand).\<close>

fun ew1 :: "(real \<Rightarrow> real) \<Rightarrow> tensor \<Rightarrow> tensor" where
  "ew1 f (T2 x) = T2 (map (map f) x)"
| "ew1 f (T4 x) = T4 (map (map (map (map f))) x)"

section \<open>Interpolation\<close>

text \<open>\<^verbatim>\<open>tf.clip_by_value(t, lo, hi)\<close> on a scalar.\<close>

definition clip_by_value :: "real \<Rightarrow> real \<Rightarrow> real \<Rightarrow> real" where
  "clip_by_value t lo hi = max (min t hi) lo"

text \<open>
  \<^verbatim>\<open>def lerp(a, b, t): return a + (b - a) * t\<close> and
  \<^verbatim>\<open>def lerp_clip(a, b, t): return a + (b - a) * tf.clip_by_value(t, 0.0, 1.0)\<close>
  on numbers.
\<close>

definition lerp :: "real \<Rightarrow> real \<Rightarrow> real \<Rightarrow> real" where
  "lerp a b t = a + (b - a) * t"

definition lerp_clip :: "real \<Rightarrow> real \<Rightarrow> real \<Rightarrow> real" where
  "lerp_clip a b t = a + (b - a) * clip_by_value t 0 1"

text \<open>
  The same two functions on tensors \<open>a\<close>, \<open>b\<close> with a scalar \<open>t\<close>: the subtraction,
  the product with the scalar and the sum are elementwise.
\<close>

definition lerp_t :: "tensor \<Rightarrow> tensor \<Rightarrow> real \<Rightarrow> tensor result" where
  "lerp_t a b t = bindE (ew2 (\<lambda>v u. v - u) b a) (\<lambda>d. ew2 (\<lambda>u v. u + v) a (ew1 (\<lambda>v. v * t) d))"

definition lerp_clip_t :: "tensor \<Rightarrow> tensor \<Rightarrow> real \<Rightarrow> tensor result" where
  "lerp_clip_t a b t =
     bindE (ew2 (\<lambda>v u. v - u) b a) (\<lambda>d. ew2 (\<lambda>u v. u + v) a (ew1 (\<lambda>v. v * clip_by_value t 0 1) d))"

section \<open>Configuration\<close>

text \<open>
  The keyword arguments of \<^verbatim>\<open>G_puzzle\<close> and \<^verbatim>\<open>D_puzzle\<close> (both ignore the keywords they do
  not name). \<^verbatim>\<open>dtype\<close> is left out: arithmetic is exact.
\<close>

record config =
  num_channels :: nat
  mode :: "string option"
  latents_sizes :: "nat list"
  firstblock_res :: nat
  resolution :: nat
  label_size :: nat
  fmap_base :: real
  fmap_decay :: real
  fmap_max :: int
  latent_size :: "nat option"
  normalize_latents :: bool
  use_wscale :: bool
  use_pixelnorm :: bool
  pixelnorm_epsilon :: real
  use_leakyrelu :: bool
  mbstd_group_size :: nat
  fused_scale :: bool
  structure_arg :: "string option"
  is_template_graph :: bool

text \<open>The default values of the keyword arguments.\<close>

definition default_config :: config where
  "default_config = \<lparr>
     num_channels = 1, mode = None, latents_sizes = [512], firstblock_res = 8,
     resolution = 32, label_size = 0, fmap_base = 8192, fmap_decay = 1, fmap_max = 512,
     latent_size = None, normalize_latents = True, use_wscale = True, use_pixelnorm = True,
     pixelnorm_epsilon = 1 / 10 ^ 8, use_leakyrelu = True, mbstd_group_size = 4,
     fused_scale = True, structure_arg = None, is_template_graph = False \<rparr>"

text \<open>Python's \<^verbatim>\<open>int(r)\<close> on a float: truncation towards zero.\<close>

definition py_int :: "real \<Rightarrow> int" where
  "py_int r = (if 0 \<le> r then \<lfloor>r\<rfloor> else \<lceil>r\<rceil>)"

text \<open>
  \<^verbatim>\<open>def nf(stage): return min(int(fmap_base / (2.0 ** (stage * fmap_decay))), fmap_max)\<close>
\<close>

definition nf :: "config \<Rightarrow> int \<Rightarrow> int" where
  "nf c stage = min (py_int (fmap_base c / 2 powr (real_of_int stage * fmap_decay c))) (fmap_max c)"

text \<open>
  \<^verbatim>\<open>int(np.log2(n))\<close> for a natural number \<open>n\<close>: the floor of the binary logarithm;
  \<^verbatim>\<open>np.log2(0)\<close> is minus infinity, which \<^verbatim>\<open>int\<close> refuses.
\<close>

fun floor_log2 :: "nat \<Rightarrow> nat" where
  "floor_log2 n = (if n < 2 then 0 else Suc (floor_log2 (n div 2)))"

declare floor_log2.simps [simp del]

definition int_log2 :: "nat \<Rightarrow> nat result" where
  "int_log2 n = (if n = 0 then Inl OverflowError else Inr (floor_log2 n))"

section \<open>Variables\<close>

text \<open>
  The variable store maps the full name of a variable (its scopes, then its own name) to
  its value, read at a multi-index. \<^verbatim>\<open>tf.get_variable\<close> yields the variable of that name
  with the requested shape; the values are the ones training has left there (the random
  initial values are not modelled).
\<close>

type_synonym store = "string list \<Rightarrow> nat list \<Rightarrow> real"

record variable =
  vshape :: "nat list"
  vval :: "nat list \<Rightarrow> real"

definition get_variable :: "store \<Rightarrow> string list \<Rightarrow> string \<Rightarrow> nat list \<Rightarrow> variable" where
  "get_variable st scope name shape = \<lparr>vshape = shape, vval = st (scope @ [name])\<rparr>"

text \<open>
  \<^verbatim>\<open>get_weight(shape, gain, use_wscale)\<close>: \<^verbatim>\<open>fan_in = np.prod(shape[:-1])\<close> (the empty
  product is 1), \<^verbatim>\<open>std = gain / np.sqrt(fan_in)\<close>; with \<^verbatim>\<open>use_wscale\<close> the variable is
  multiplied by the constant \<^verbatim>\<open>std\<close>. No statement of the function raises.
\<close>

definition get_weight :: "store \<Rightarrow> string list \<Rightarrow> nat list \<Rightarrow> real \<Rightarrow> bool \<Rightarrow> variable result" where
  "get_weight st scope shape gain wscale =
     (let fan_in = prod_list (butlast shape);
          std = gain / sqrt (real fan_in);
          w = get_variable st scope ''weight'' shape
      in if wscale then Inr (w\<lparr>vval := (\<lambda>i. vval w i * std)\<rparr>) else Inr w)"

section \<open>Facts about shapes and elementwise operations\<close>

lemma bindE_simps [simp]:
  "bindE (Inl e) f = Inl e"
  "bindE (Inr v) f = f v"
  by (simp_all add: bindE_def)

lemma bindE_cong [fundef_cong]:
  "m = m' \<Longrightarrow> (\<And>v. m' = Inr v \<Longrightarrow> f v = f' v) \<Longrightarrow> bindE m f = bindE m' f'"
  by (auto simp: bindE_def split: sum.splits)

lemma bindE_eq_Inr_iff: "bindE m f = Inr r \<longleftrightarrow> (\<exists>v. m = Inr v \<and> f v = Inr r)"
  by (cases m) simp_all

lemma same_shape2_refl [simp]: "same_shape2 a a"
  by (simp add: same_shape2_def list_all2_same)

lemma same_shape4_refl [simp]: "same_shape4 a a"
  by (simp add: same_shape4_def list_all2_same)

lemma same_shape_refl [simp]: "same_shape a a"
  by (cases a) simp_all

lemma same_shape2_sym: "same_shape2 a b \<Longrightarrow> same_shape2 b a"
  unfolding same_shape2_def by (simp add: list_all2_conv_all_nth)

lemma same_shape4_sym: "same_shape4 a b \<Longrightarrow> same_shape4 b a"
  unfolding same_shape4_def
  by (auto simp: list_all2_conv_all_nth intro: same_shape2_sym)

lemma same_shape_sym: "same_shape a b \<Longrightarrow> same_shape b a"
  by (cases a; cases b) (auto intro: same_shape2_sym same_shape4_sym)

lemma same_shape2_trans: "same_shape2 a b \<Longrightarrow> same_shape2 b c \<Longrightarrow> same_shape2 a c"
  unfolding same_shape2_def by (auto simp: list_all2_conv_all_nth)

lemma same_shape4_trans:
  assumes "same_shape4 a b" and "same_shape4 b c"
  shows "same_shape4 a c"
proof -
  have inner: "list_all2 same_shape2 p r"
    if "list_all2 same_shape2 p q" "list_all2 same_shape2 q r" for p q r
    using that(1) that(2)
    by (rule list_all2_trans[of same_shape2 same_shape2 same_shape2, rotated]) (rule same_shape2_trans)
  show ?thesis
    using assms unfolding same_shape4_def
    by (rule list_all2_trans[of "list_all2 same_shape2" "list_all2 same_shape2"
          "list_all2 same_shape2", rotated]) (rule inner)
qed

lemma same_shape_trans: "same_shape a b \<Longrightarrow> same_shape b c \<Longrightarrow> same_shape a c"
  by (cases a; cases b; cases c) (auto intro: same_shape2_trans same_shape4_trans)


lemma map2_fuse:
  "list_all2 P x y \<Longrightarrow> (\<And>u v. P u v \<Longrightarrow> F u (G v u) = H u v) \<Longrightarrow>
     map2 F x (map2 G y x) = map2 H x y"
  by (induction rule: list_all2_induct) simp_all

lemma map2_fuse_map:
  "list_all2 P x y \<Longrightarrow> (\<And>u v. P u v \<Longrightarrow> F u (K (G v u)) = H u v) \<Longrightarrow>
     map2 F x (map K (map2 G y x)) = map2 H x y"
  by (induction rule: list_all2_induct) simp_all

lemma list_all2_map2_right:
  "list_all2 P x y \<Longrightarrow> (\<And>u v. P u v \<Longrightarrow> Q u (K (G v u))) \<Longrightarrow>
     list_all2 Q x (map K (map2 G y x))"
  by (induction rule: list_all2_induct) simp_all

lemma list_all2_map2_both:
  "list_all2 P x y \<Longrightarrow> (\<And>u v. P u v \<Longrightarrow> Q (H u v) u) \<Longrightarrow>
     list_all2 Q (map2 H x y) x"
  by (induction rule: list_all2_induct) simp_all

lemma map2_snd:
  "list_all2 P x y \<Longrightarrow> (\<And>u v. P u v \<Longrightarrow> H u v = v) \<Longrightarrow> map2 H x y = y"
  by (induction rule: list_all2_induct) simp_all

lemma map2_fst:
  "list_all2 P x y \<Longrightarrow> (\<And>u v. P u v \<Longrightarrow> H u v = u) \<Longrightarrow> map2 H x y = x"
  by (induction rule: list_all2_induct) simp_all

lemma map2_cong_all2:
  "list_all2 P x y \<Longrightarrow> (\<And>u v. P u v \<Longrightarrow> H u v = H' u v) \<Longrightarrow> map2 H x y = map2 H' x y"
  by (induction rule: list_all2_induct) simp_all

lemma len_all2: "length r = length s \<Longrightarrow> list_all2 (\<lambda>_ _. True) r s"
  by (simp add: list_all2_conv_all_nth)

lemma row_fuse:
  "length r = length s \<Longrightarrow> map2 f r (map k (map2 g s r)) = map2 (\<lambda>u v. f u (k (g v u))) r s"
  by (rule map2_fuse_map[OF len_all2]) simp_all

lemma t2_fuse:
  "same_shape2 x y \<Longrightarrow>
   map2 (map2 f) x (map (map k) (map2 (map2 g) y x)) = map2 (map2 (\<lambda>u v. f u (k (g v u)))) x y"
  unfolding same_shape2_def
  by (erule map2_fuse_map) (rule row_fuse)

lemma t4_fuse:
  "same_shape4 x y \<Longrightarrow>
   map2 (map2 (map2 (map2 f))) x (map (map (map (map k))) (map2 (map2 (map2 (map2 g))) y x))
     = map2 (map2 (map2 (map2 (\<lambda>u v. f u (k (g v u)))))) x y"
  unfolding same_shape4_def
  by (erule map2_fuse_map, erule map2_fuse_map) (rule t2_fuse)

lemma row_shape: "length r = length s \<Longrightarrow> length r = length (map k (map2 g s r))"
  by simp

lemma t2_shape_right:
  "same_shape2 x y \<Longrightarrow> same_shape2 x (map (map k) (map2 (map2 g) y x))"
  unfolding same_shape2_def
  by (erule list_all2_map2_right) simp

lemma t4_shape_right:
  "same_shape4 x y \<Longrightarrow> same_shape4 x (map (map (map (map k))) (map2 (map2 (map2 (map2 g))) y x))"
  unfolding same_shape4_def
  by (erule list_all2_map2_right, erule list_all2_map2_right) (rule t2_shape_right)

lemma lerp_t_eq: "lerp_t a b t = ew2 (\<lambda>u v. lerp u v t) a b"
proof (cases "same_shape a b")
  case False
  then have "\<not> same_shape b a" using same_shape_sym by blast
  with False show ?thesis by (simp add: lerp_t_def ew2_def)
next
  case True
  then have ba: "same_shape b a" by (rule same_shape_sym)
  show ?thesis
  proof (cases a)
    case (T2 x)
    with True obtain y where b: "b = T2 y" by (cases b) auto
    from True ba T2 b show ?thesis
      by (simp add: lerp_t_def ew2_def t2_fuse t2_shape_right lerp_def del: map_map)
  next
    case (T4 x)
    with True obtain y where b: "b = T4 y" by (cases b) auto
    from True ba T4 b show ?thesis
      by (simp add: lerp_t_def ew2_def t4_fuse t4_shape_right lerp_def del: map_map)
  qed
qed


lemma lerp_clip_t_eq: "lerp_clip_t a b t = ew2 (\<lambda>u v. lerp_clip u v t) a b"
proof (cases "same_shape a b")
  case False
  then have "\<not> same_shape b a" using same_shape_sym by blast
  with False show ?thesis by (simp add: lerp_clip_t_def ew2_def)
next
  case True
  then have ba: "same_shape b a" by (rule same_shape_sym)
  show ?thesis
  proof (cases a)
    case (T2 x)
    with True obtain y where b: "b = T2 y" by (cases b) auto
    from True ba T2 b show ?thesis
      by (simp add: lerp_clip_t_def ew2_def t2_fuse t2_shape_right lerp_clip_def del: map_map)
  next
    case (T4 x)
    with True obtain y where b: "b = T4 y" by (cases b) auto
    from True ba T4 b show ?thesis
      by (simp add: lerp_clip_t_def ew2_def t4_fuse t4_shape_right lerp_clip_def del: map_map)
  qed
qed

lemma ew2_not_same: "\<not> same_shape a b \<Longrightarrow> ew2 f a b = Inl ValueError"
  by (simp add: ew2_def)

lemma ew2_Inr_same: "ew2 f a b = Inr c \<Longrightarrow> same_shape a b"
  by (auto simp: ew2_def split: if_splits)

lemma t2_snd: "same_shape2 x y \<Longrightarrow> (\<And>u v. f u v = v) \<Longrightarrow> map2 (map2 f) x y = y"
  unfolding same_shape2_def
  by (erule map2_snd) (rule map2_snd[OF len_all2], simp_all)

lemma t4_snd:
  "same_shape4 x y \<Longrightarrow> (\<And>u v. f u v = v) \<Longrightarrow> map2 (map2 (map2 (map2 f))) x y = y"
  unfolding same_shape4_def
  by (erule map2_snd, erule map2_snd) (rule t2_snd)

lemma t2_fst: "same_shape2 x y \<Longrightarrow> (\<And>u v. f u v = u) \<Longrightarrow> map2 (map2 f) x y = x"
  unfolding same_shape2_def
  by (erule map2_fst) (rule map2_fst[OF len_all2], simp_all)

lemma t4_fst:
  "same_shape4 x y \<Longrightarrow> (\<And>u v. f u v = u) \<Longrightarrow> map2 (map2 (map2 (map2 f))) x y = x"
  unfolding same_shape4_def
  by (erule map2_fst, erule map2_fst) (rule t2_fst)

lemma ew2_snd: "same_shape a b \<Longrightarrow> (\<And>u v. f u v = v) \<Longrightarrow> ew2 f a b = Inr b"
  by (cases a; cases b) (simp_all add: ew2_def t2_snd t4_snd)

lemma ew2_fst: "same_shape a b \<Longrightarrow> (\<And>u v. f u v = u) \<Longrightarrow> ew2 f a b = Inr a"
  by (cases a; cases b) (simp_all add: ew2_def t2_fst t4_fst)

lemma t2_shape_res: "same_shape2 x y \<Longrightarrow> same_shape2 (map2 (map2 f) x y) x"
  unfolding same_shape2_def
  by (erule list_all2_map2_both) simp

lemma t4_shape_res: "same_shape4 x y \<Longrightarrow> same_shape4 (map2 (map2 (map2 (map2 f))) x y) x"
  unfolding same_shape4_def
  by (erule list_all2_map2_both, erule list_all2_map2_both) (rule t2_shape_res)

lemma ew2_Inr_shape: "ew2 f a b = Inr c \<Longrightarrow> same_shape c a"
  by (cases a; cases b) (auto simp: ew2_def t2_shape_res t4_shape_res split: if_splits)

lemma ew2_same_ex: "same_shape a b \<Longrightarrow> \<exists>c. ew2 f a b = Inr c"
  by (cases a; cases b) (simp_all add: ew2_def)

lemma lerp_clip_t_low: "t \<le> 0 \<Longrightarrow> same_shape a b \<Longrightarrow> lerp_clip_t a b t = Inr a"
  unfolding lerp_clip_t_eq by (rule ew2_fst) (simp_all add: lerp_clip_def clip_by_value_def)

lemma lerp_clip_t_high: "1 \<le> t \<Longrightarrow> same_shape a b \<Longrightarrow> lerp_clip_t a b t = Inr b"
  unfolding lerp_clip_t_eq by (rule ew2_snd) (simp_all add: lerp_clip_def clip_by_value_def)

lemma lerp_clip_t_mid: "0 \<le> t \<Longrightarrow> t \<le> 1 \<Longrightarrow> lerp_clip_t a b t = lerp_t a b t"
  unfolding lerp_clip_t_eq lerp_t_eq by (simp add: lerp_clip_def lerp_def clip_by_value_def)

lemma lerp_t_zero: "same_shape a b \<Longrightarrow> lerp_t a b 0 = Inr a"
  unfolding lerp_t_eq by (rule ew2_fst) (simp_all add: lerp_def)

lemma lerp_t_one: "same_shape a b \<Longrightarrow> lerp_t a b 1 = Inr b"
  unfolding lerp_t_eq by (rule ew2_snd) (simp_all add: lerp_def)

section \<open>Interpolation endpoints\<close>




section \<open>Feature map schedule\<close>

lemma py_int_nonneg: "0 \<le> r \<Longrightarrow> py_int r = \<lfloor>r\<rfloor>"
  by (simp add: py_int_def)

lemma nf_antimono:
  assumes b: "0 < fmap_base c" and d: "0 \<le> fmap_decay c" and s: "s1 \<le> s2"
  shows "nf c s2 \<le> nf c s1"
proof -
  have e: "2 powr (real_of_int s1 * fmap_decay c) \<le> 2 powr (real_of_int s2 * fmap_decay c)"
    using d s by (intro powr_mono mult_right_mono) simp_all
  have pos: "0 < 2 powr (real_of_int s1 * fmap_decay c)" by simp
  have q: "fmap_base c / 2 powr (real_of_int s2 * fmap_decay c)
         \<le> fmap_base c / 2 powr (real_of_int s1 * fmap_decay c)"
    using b e pos by (intro divide_left_mono) simp_all
  have n1: "0 \<le> fmap_base c / 2 powr (real_of_int s1 * fmap_decay c)" using b by simp
  have n2: "0 \<le> fmap_base c / 2 powr (real_of_int s2 * fmap_decay c)" using b by simp
  have "py_int (fmap_base c / 2 powr (real_of_int s2 * fmap_decay c))
      \<le> py_int (fmap_base c / 2 powr (real_of_int s1 * fmap_decay c))"
    unfolding py_int_nonneg[OF n1] py_int_nonneg[OF n2] using q by (rule floor_mono)
  then show ?thesis unfolding nf_def by (rule min.mono) simp
qed





section \<open>Weights of every rank\<close>

text \<open>
  C6 (as the code has it): \<open>get_weight\<close> checks nothing about the number of dimensions.
  For every shape, also one with fewer than two dimensions, it returns the variable
  \<^verbatim>\<open>weight\<close> of that shape, scaled by \<open>gain / sqrt fan_in\<close> when \<open>use_wscale\<close> is set, where
  \<open>fan_in\<close> is the product of all dimensions but the last (1 for a shape of length 0 or 1).
\<close>

theorem get_weight_returns_for_every_shape:
  "\<exists>w. get_weight st scope shape gain wscale = Inr w \<and> vshape w = shape \<and>
       (\<forall>i. vval w i = st (scope @ [''weight'']) i *
                (if wscale then gain / sqrt (real (prod_list (butlast shape))) else 1))"
  by (simp add: get_weight_def get_variable_def Let_def)

text \<open>
  The claim that \<open>get_weight\<close> fails on a shape with fewer than two dimensions is false:
  on the shapes \<open>[5]\<close> and \<open>[]\<close> it returns the variable.
\<close>

theorem get_weight_short_shape_counterexample:
  "length [5::nat] < 2 \<and>
   get_weight (\<lambda>_ _. 0) [] [5] 1 False = Inr (get_variable (\<lambda>_ _. 0) [] ''weight'' [5]) \<and>
   length ([]::nat list) < 2 \<and>
   get_weight (\<lambda>_ _. 0) [] [] 1 False = Inr (get_variable (\<lambda>_ _. 0) [] ''weight'' [])"
  by (simp add: get_weight_def Let_def)

section \<open>Primitives of the tensor engine\<close>

text \<open>
  The static dimensions of a tensor: \<^verbatim>\<open>x.shape[1]\<close>, and for a sample [channel, height,
  width] of a rank 4 tensor its height and width (an empty list has dimension 0).
\<close>

definition dim1 :: "tensor \<Rightarrow> nat" where
  "dim1 x = (case x of
       T2 r \<Rightarrow> (case r of [] \<Rightarrow> 0 | row # _ \<Rightarrow> length row)
     | T4 r \<Rightarrow> (case r of [] \<Rightarrow> 0 | xn # _ \<Rightarrow> length xn))"

definition height :: "t3 \<Rightarrow> nat" where
  "height xn = (case xn of [] \<Rightarrow> 0 | p # _ \<Rightarrow> length p)"

definition width :: "t3 \<Rightarrow> nat" where
  "width xn = (case xn of [] \<Rightarrow> 0 | p # _ \<Rightarrow> (case p of [] \<Rightarrow> 0 | r # _ \<Rightarrow> length r))"

text \<open>Reading a plane [height, width] at a position; outside the plane lies the zero padding.\<close>

definition at2 :: "t2 \<Rightarrow> int \<Rightarrow> int \<Rightarrow> real" where
  "at2 p i j =
     (if 0 \<le> i \<and> i < int (length p) \<and> 0 \<le> j \<and> j < int (length (p ! nat i))
      then p ! nat i ! nat j else 0)"

text \<open>
  Padding \<^verbatim>\<open>SAME\<close>: an input of size \<open>n\<close> under stride \<open>s\<close> gives \<open>ceil (n / s)\<close> outputs;
  the total padding is \<open>max ((out - 1) * s + k - n) 0\<close>, and the input is preceded by
  half of it, rounded down.
\<close>

definition same_out :: "nat \<Rightarrow> nat \<Rightarrow> nat" where
  "same_out n s = (n + s - 1) div s"

definition same_pad :: "nat \<Rightarrow> nat \<Rightarrow> nat \<Rightarrow> nat" where
  "same_pad n k s = nat (max 0 ((int (same_out n s) - 1) * int s + int k - int n)) div 2"

text \<open>
  \<^verbatim>\<open>tf.nn.conv2d(x, w, strides=[1,1,s,s], padding='SAME', data_format='NCHW')\<close> with a
  filter \<open>w\<close> of shape [kh, kw, in, out]: a cross-correlation,
  \<open>out[n,o,i,j] = sum c a b. x[n, c, i*s + a - pad_top, j*s + b - pad_left] * w[a,b,c,o]\<close>.
  An input that is not of rank 4 raises.
\<close>

definition tf_nn_conv2d :: "tensor \<Rightarrow> variable \<Rightarrow> nat \<Rightarrow> tensor result" where
  "tf_nn_conv2d x w s =
     (case (x, vshape w) of
        (T4 xs, [kh, kw, cin, cout]) \<Rightarrow>
          Inr (T4 (map (\<lambda>xn.
            map (\<lambda>oc. map (\<lambda>i. map (\<lambda>j.
              (\<Sum>c\<leftarrow>[0..<length xn]. \<Sum>a\<leftarrow>[0..<kh]. \<Sum>b\<leftarrow>[0..<kw].
                 at2 (xn ! c) (int (i * s + a) - int (same_pad (height xn) kh s))
                              (int (j * s + b) - int (same_pad (width xn) kw s))
                 * vval w [a, b, c, oc]))
              [0..<same_out (width xn) s]) [0..<same_out (height xn) s]) [0..<cout]) xs))
      | _ \<Rightarrow> Inl ValueError)"

text \<open>
  \<^verbatim>\<open>tf.nn.conv2d_transpose(x, w, output_shape, strides=[1,1,s,s], padding='SAME',
  data_format='NCHW')\<close> with a filter of shape [kh, kw, out, in] and an output of
  \<open>oh\<close> rows and \<open>ow\<close> columns: the transpose (the gradient with respect to its input) of
  the convolution above from the output to the input, so the input element at
  \<open>(i, j)\<close> contributes \<open>x[n,c,i,j] * w[a,b,o,c]\<close> to the output element at
  \<open>(i*s + a - pad_top, j*s + b - pad_left)\<close>, with the padding of that convolution.
\<close>

definition tf_nn_conv2d_transpose :: "tensor \<Rightarrow> variable \<Rightarrow> nat \<Rightarrow> nat \<Rightarrow> nat \<Rightarrow> tensor result" where
  "tf_nn_conv2d_transpose x w oh ow s =
     (case (x, vshape w) of
        (T4 xs, [kh, kw, cout, cin]) \<Rightarrow>
          Inr (T4 (map (\<lambda>xn.
            map (\<lambda>oc. map (\<lambda>p. map (\<lambda>q.
              (\<Sum>c\<leftarrow>[0..<length xn]. \<Sum>a\<leftarrow>[0..<kh]. \<Sum>b\<leftarrow>[0..<kw].
                 (let u = int p + int (same_pad oh kh s) - int a;
                      v = int q + int (same_pad ow kw s) - int b
                  in if u mod int s = 0 \<and> v mod int s = 0
                     then at2 (xn ! c) (u div int s) (v div int s) * vval w [a, b, oc, c]
                     else 0)))
              [0..<ow]) [0..<oh]) [0..<cout]) xs))
      | _ \<Rightarrow> Inl ValueError)"

text \<open>
  \<^verbatim>\<open>tf.nn.avg_pool(x, ksize=[1,1,f,f], strides=[1,1,f,f], padding='VALID',
  data_format='NCHW')\<close>: the mean of each whole block of \<open>f\<close> by \<open>f\<close> elements.
\<close>

definition tf_nn_avg_pool :: "tensor \<Rightarrow> nat \<Rightarrow> tensor result" where
  "tf_nn_avg_pool x f =
     (case x of
        T4 xs \<Rightarrow>
          Inr (T4 (map (\<lambda>xn.
            map (\<lambda>p. map (\<lambda>i. map (\<lambda>j.
              (\<Sum>a\<leftarrow>[0..<f]. \<Sum>b\<leftarrow>[0..<f]. at2 p (int (i * f + a)) (int (j * f + b)))
                / real (f * f))
              [0..<width xn div f]) [0..<height xn div f]) xn) xs))
      | T2 _ \<Rightarrow> Inl ValueError)"

text \<open>\<^verbatim>\<open>tf.matmul(x, w)\<close> for \<open>x\<close> of shape [minibatch, in] and \<open>w\<close> of shape [in, out].\<close>

definition tf_matmul :: "t2 \<Rightarrow> variable \<Rightarrow> nat \<Rightarrow> t2" where
  "tf_matmul x w fmaps =
     map (\<lambda>row. map (\<lambda>oc. (\<Sum>i\<leftarrow>[0..<length row]. row ! i * vval w [i, oc])) [0..<fmaps]) x"

text \<open>
  Operations on a filter before it is used: \<^verbatim>\<open>tf.transpose(w, [0, 1, 3, 2])\<close>,
  \<^verbatim>\<open>tf.pad(w, [[1,1], [1,1], [0,0], [0,0]], mode='CONSTANT')\<close>, the slices \<^verbatim>\<open>w[1:, 1:]\<close>
  (\<open>slice_hw 1 1\<close>), \<^verbatim>\<open>w[:-1, 1:]\<close> (\<open>slice_hw 0 1\<close>), \<^verbatim>\<open>w[1:, :-1]\<close> (\<open>slice_hw 1 0\<close>) and
  \<^verbatim>\<open>w[:-1, :-1]\<close> (\<open>slice_hw 0 0\<close>), \<^verbatim>\<open>tf.add_n\<close> of four filters, and the product with a
  number.
\<close>

definition tf_transpose_0132 :: "variable \<Rightarrow> variable" where
  "tf_transpose_0132 w =
     (case vshape w of
        [s0, s1, s2, s3] \<Rightarrow>
          \<lparr>vshape = [s0, s1, s3, s2],
           vval = (\<lambda>i. case i of [a, b, c, d] \<Rightarrow> vval w [a, b, d, c] | _ \<Rightarrow> 0)\<rparr>
      | _ \<Rightarrow> w)"

definition tf_pad_hw :: "variable \<Rightarrow> variable" where
  "tf_pad_hw w =
     (case vshape w of
        [s0, s1, s2, s3] \<Rightarrow>
          \<lparr>vshape = [s0 + 2, s1 + 2, s2, s3],
           vval = (\<lambda>i. case i of
                      [a, b, c, d] \<Rightarrow>
                        if 1 \<le> a \<and> a \<le> s0 \<and> 1 \<le> b \<and> b \<le> s1 then vval w [a - 1, b - 1, c, d] else 0
                    | _ \<Rightarrow> 0)\<rparr>
      | _ \<Rightarrow> w)"

definition slice_hw :: "nat \<Rightarrow> nat \<Rightarrow> variable \<Rightarrow> variable" where
  "slice_hw a0 b0 w =
     (case vshape w of
        [s0, s1, s2, s3] \<Rightarrow>
          \<lparr>vshape = [s0 - 1, s1 - 1, s2, s3],
           vval = (\<lambda>i. case i of [a, b, c, d] \<Rightarrow> vval w [a + a0, b + b0, c, d] | _ \<Rightarrow> 0)\<rparr>
      | _ \<Rightarrow> w)"

definition tf_add_n4 :: "variable \<Rightarrow> variable \<Rightarrow> variable \<Rightarrow> variable \<Rightarrow> variable" where
  "tf_add_n4 w1 w2 w3 w4 =
     \<lparr>vshape = vshape w1, vval = (\<lambda>i. vval w1 i + vval w2 i + vval w3 i + vval w4 i)\<rparr>"

definition var_scale :: "variable \<Rightarrow> real \<Rightarrow> variable" where
  "var_scale w k = w\<lparr>vval := (\<lambda>i. vval w i * k)\<rparr>"

section \<open>Layers\<close>

text \<open>
  Each layer takes the variable store and the variable scope it is called in (the source
  opens the scopes with \<^verbatim>\<open>tf.variable_scope\<close>).

  \<^verbatim>\<open>dense(x, fmaps, gain, use_wscale)\<close>: an input of rank above 2 is flattened to
  [minibatch, features] first.
\<close>

definition dense :: "store \<Rightarrow> string list \<Rightarrow> tensor \<Rightarrow> nat \<Rightarrow> real \<Rightarrow> bool \<Rightarrow> tensor result" where
  "dense st scope x fmaps gain wscale =
     (let x2 = (case x of T2 r \<Rightarrow> r | T4 r \<Rightarrow> map (\<lambda>xn. concat (map concat xn)) r) in
      bindE (get_weight st scope [dim1 (T2 x2), fmaps] gain wscale)
        (\<lambda>w. Inr (T2 (tf_matmul x2 w fmaps))))"

text \<open>\<^verbatim>\<open>conv2d(x, fmaps, kernel, gain, use_wscale)\<close>, with its assertion on the kernel size.\<close>

definition conv2d :: "store \<Rightarrow> string list \<Rightarrow> tensor \<Rightarrow> nat \<Rightarrow> nat \<Rightarrow> real \<Rightarrow> bool \<Rightarrow> tensor result" where
  "conv2d st scope x fmaps kern gain wscale =
     (if \<not> (kern \<ge> 1 \<and> kern mod 2 = 1) then Inl AssertionError
      else bindE (get_weight st scope [kern, kern, dim1 x, fmaps] gain wscale)
             (\<lambda>w. tf_nn_conv2d x w 1))"

text \<open>
  \<^verbatim>\<open>apply_bias(x)\<close>: the variable \<^verbatim>\<open>bias\<close> of shape [\<^verbatim>\<open>x.shape[1]\<close>] is added to every row
  of a rank 2 input, and channel by channel to a rank 4 input.
\<close>

definition apply_bias :: "store \<Rightarrow> string list \<Rightarrow> tensor \<Rightarrow> tensor" where
  "apply_bias st scope x =
     (let b = get_variable st scope ''bias'' [dim1 x] in
      case x of
        T2 r \<Rightarrow> T2 (map (\<lambda>row. map (\<lambda>i. row ! i + vval b [i]) [0..<length row]) r)
      | T4 r \<Rightarrow> T4 (map (\<lambda>xn. map (\<lambda>c. map (map (\<lambda>v. v + vval b [c])) (xn ! c)) [0..<length xn]) r))"

text \<open>\<^verbatim>\<open>leaky_relu(x, alpha)\<close> is \<^verbatim>\<open>tf.maximum(x * alpha, x)\<close>; \<^verbatim>\<open>tf.nn.relu\<close> is the maximum with 0.\<close>

definition leaky_relu :: "tensor \<Rightarrow> real \<Rightarrow> tensor" where
  "leaky_relu x alpha = ew1 (\<lambda>v. max (v * alpha) v) x"

definition tf_nn_relu :: "tensor \<Rightarrow> tensor" where
  "tf_nn_relu x = ew1 (\<lambda>v. max v 0) x"

text \<open>
  A scaling factor as Python computes \<^verbatim>\<open>2**lod\<close>: an \<^verbatim>\<open>int\<close> for \<open>lod \<ge> 0\<close>, a \<^verbatim>\<open>float\<close>
  for a negative \<open>lod\<close>.
\<close>

datatype pynum = PyInt int | PyFloat real

definition py_pow2 :: "int \<Rightarrow> pynum" where
  "py_pow2 l = (if 0 \<le> l then PyInt (2 ^ nat l) else PyFloat (1 / 2 ^ nat (- l)))"

text \<open>
  \<^verbatim>\<open>upscale2d(x, factor)\<close>: asserts \<^verbatim>\<open>isinstance(factor, int) and factor >= 1\<close>; factor 1
  returns \<open>x\<close>; otherwise the reshape to [-1, C, H, 1, W, 1], the tiling by
  [1, 1, 1, factor, 1, factor] and the reshape to [-1, C, H * factor, W * factor] repeat
  every element \<open>factor\<close> times along the height and along the width. Indexing the shape of
  a rank 2 input at 2 raises.
\<close>

definition upscale_plane :: "nat \<Rightarrow> t2 \<Rightarrow> t2" where
  "upscale_plane f p = concat (map (\<lambda>r. replicate f (concat (map (replicate f) r))) p)"

definition upscale2d :: "tensor \<Rightarrow> pynum \<Rightarrow> tensor result" where
  "upscale2d x factor =
     (case factor of
        PyFloat _ \<Rightarrow> Inl AssertionError
      | PyInt f \<Rightarrow>
          if \<not> f \<ge> 1 then Inl AssertionError
          else if f = 1 then Inr x
          else (case x of
                  T2 _ \<Rightarrow> Inl IndexError
                | T4 xs \<Rightarrow> Inr (T4 (map (map (upscale_plane (nat f))) xs))))"

text \<open>
  \<^verbatim>\<open>upscale2d_conv2d(x, fmaps, kernel, gain, use_wscale)\<close>: the filter is transposed, padded
  by one on each side of its two spatial axes, summed over its four shifts and used in a
  transposed convolution of stride 2 with the output shape
  [N, fmaps, \<^verbatim>\<open>x.shape[2]\<close> * 2, \<^verbatim>\<open>x.shape[3]\<close> * 2].
\<close>

definition dim2 :: "tensor \<Rightarrow> nat" where
  "dim2 x = (case x of T2 _ \<Rightarrow> 0 | T4 r \<Rightarrow> (case r of [] \<Rightarrow> 0 | xn # _ \<Rightarrow> height xn))"

definition dim3 :: "tensor \<Rightarrow> nat" where
  "dim3 x = (case x of T2 _ \<Rightarrow> 0 | T4 r \<Rightarrow> (case r of [] \<Rightarrow> 0 | xn # _ \<Rightarrow> width xn))"

definition upscale2d_conv2d :: "store \<Rightarrow> string list \<Rightarrow> tensor \<Rightarrow> nat \<Rightarrow> nat \<Rightarrow> real \<Rightarrow> bool \<Rightarrow> tensor result" where
  "upscale2d_conv2d st scope x fmaps kern gain wscale =
     (if \<not> (kern \<ge> 1 \<and> kern mod 2 = 1) then Inl AssertionError
      else bindE (get_weight st scope [kern, kern, dim1 x, fmaps] gain wscale)
        (\<lambda>w. let w = tf_transpose_0132 w;
                  w = tf_pad_hw w;
                  w = tf_add_n4 (slice_hw 1 1 w) (slice_hw 0 1 w) (slice_hw 1 0 w) (slice_hw 0 0 w)
              in case x of
                   T2 _ \<Rightarrow> Inl IndexError
                 | T4 _ \<Rightarrow> tf_nn_conv2d_transpose x w (dim2 x * 2) (dim3 x * 2) 2))"

text \<open>
  \<^verbatim>\<open>downscale2d(x, factor)\<close>: the same assertion; factor 1 returns \<open>x\<close>; otherwise average
  pooling over blocks of \<open>factor\<close> by \<open>factor\<close>.
\<close>

definition downscale2d :: "tensor \<Rightarrow> pynum \<Rightarrow> tensor result" where
  "downscale2d x factor =
     (case factor of
        PyFloat _ \<Rightarrow> Inl AssertionError
      | PyInt f \<Rightarrow>
          if \<not> f \<ge> 1 then Inl AssertionError
          else if f = 1 then Inr x
          else tf_nn_avg_pool x (nat f))"

text \<open>
  \<^verbatim>\<open>conv2d_downscale2d(x, fmaps, kernel, gain, use_wscale)\<close>: the filter is padded by one on
  each side of its two spatial axes, summed over its four shifts, multiplied by 0.25 and
  used in a convolution of stride 2.
\<close>

definition conv2d_downscale2d :: "store \<Rightarrow> string list \<Rightarrow> tensor \<Rightarrow> nat \<Rightarrow> nat \<Rightarrow> real \<Rightarrow> bool \<Rightarrow> tensor result" where
  "conv2d_downscale2d st scope x fmaps kern gain wscale =
     (if \<not> (kern \<ge> 1 \<and> kern mod 2 = 1) then Inl AssertionError
      else bindE (get_weight st scope [kern, kern, dim1 x, fmaps] gain wscale)
        (\<lambda>w. let w = tf_pad_hw w;
                  w = var_scale
                        (tf_add_n4 (slice_hw 1 1 w) (slice_hw 0 1 w) (slice_hw 1 0 w) (slice_hw 0 0 w))
                        (1 / 4)
              in tf_nn_conv2d x w 2))"

text \<open>
  \<^verbatim>\<open>pixel_norm(x, epsilon)\<close>: \<^verbatim>\<open>x * tf.rsqrt(tf.reduce_mean(tf.square(x), axis=1,
  keepdims=True) + epsilon)\<close>. Axis 1 is the feature axis of a rank 2 tensor and the channel
  axis of a rank 4 tensor.
\<close>

definition tf_rsqrt :: "real \<Rightarrow> real" where
  "tf_rsqrt r = 1 / sqrt r"

definition pixel_norm :: "tensor \<Rightarrow> real \<Rightarrow> tensor" where
  "pixel_norm x epsilon =
     (case x of
        T2 r \<Rightarrow>
          T2 (map (\<lambda>row. map (\<lambda>v. v * tf_rsqrt ((\<Sum>u\<leftarrow>row. u ^ 2) / real (length row) + epsilon)) row) r)
      | T4 r \<Rightarrow>
          T4 (map (\<lambda>xn. map (\<lambda>p. map (\<lambda>i. map (\<lambda>j.
                p ! i ! j * tf_rsqrt ((\<Sum>q\<leftarrow>xn. (at2 q (int i) (int j)) ^ 2) / real (length xn) + epsilon))
              [0..<length (p ! i)]) [0..<length p]) xn) r))"

text \<open>
  \<^verbatim>\<open>minibatch_stddev_layer(x, group_size)\<close> with one new feature: the minibatch of \<open>N\<close>
  samples is split into \<open>M = N / G\<close> groups of \<open>G = min group_size N\<close> samples (sample
  \<open>g * M + m\<close> is the \<open>g\<close>-th of group \<open>m\<close>); the standard deviation over each group, with
  \<open>1e-8\<close> added to the variance, is averaged over channels and pixels, and that number is
  appended to every sample of the group as one constant channel. A minibatch that does not
  split into whole groups raises.
\<close>

definition group_stddev :: "t4 \<Rightarrow> nat \<Rightarrow> nat \<Rightarrow> nat \<Rightarrow> real" where
  "group_stddev xs g m k =
     (let C = dim1 (T4 xs); H = dim2 (T4 xs); W = dim3 (T4 xs) in
      (\<Sum>c\<leftarrow>[0..<C]. \<Sum>i\<leftarrow>[0..<H]. \<Sum>j\<leftarrow>[0..<W].
         (let v = (\<lambda>q. at2 (xs ! (q * m + k) ! c) (int i) (int j));
              mu = (\<Sum>q\<leftarrow>[0..<g]. v q) / real g
          in sqrt ((\<Sum>q\<leftarrow>[0..<g]. (v q - mu) ^ 2) / real g + 1 / 10 ^ 8)))
      / real (C * H * W))"

definition minibatch_stddev_layer :: "tensor \<Rightarrow> nat \<Rightarrow> tensor result" where
  "minibatch_stddev_layer x group_size =
     (case x of
        T2 _ \<Rightarrow> Inl IndexError
      | T4 xs \<Rightarrow>
          (let g = min group_size (length xs) in
           if g = 0 \<or> length xs mod g \<noteq> 0 then Inl ValueError
           else
             (let m = length xs div g in
              Inr (T4 (map (\<lambda>t. xs ! t @
                    [replicate (dim2 x) (replicate (dim3 x) (group_stddev xs g m (t mod m)))])
                  [0..<length xs])))))"

section \<open>Scope names and graph construction helpers\<close>

text \<open>The decimal text of a number, for \<^verbatim>\<open>'%dx%d' % (2**res, 2**res)\<close> and \<^verbatim>\<open>'ToRGB_lod%d' % lod\<close>.\<close>

fun string_of_nat :: "nat \<Rightarrow> string" where
  "string_of_nat n =
     (if n < 10 then [char_of (48 + n)] else string_of_nat (n div 10) @ [char_of (48 + n mod 10)])"

declare string_of_nat.simps [simp del]

definition string_of_int :: "int \<Rightarrow> string" where
  "string_of_int i = (if i < 0 then ''-'' @ string_of_nat (nat (- i)) else string_of_nat (nat i))"

definition res_scope :: "nat \<Rightarrow> string" where
  "res_scope res = string_of_nat (2 ^ res) @ ''x'' @ string_of_nat (2 ^ res)"

text \<open>
  \<^verbatim>\<open>def cset(cur_lambda, new_cond, new_lambda): return lambda: tf.cond(new_cond, new_lambda,
  cur_lambda)\<close>. While the graph is built \<^verbatim>\<open>tf.cond\<close> calls both branch functions (the true
  branch first), so an exception of either one is raised; the value of the node is the
  value of the branch the condition selects.
\<close>

definition tf_cond :: "bool \<Rightarrow> tensor result \<Rightarrow> tensor result \<Rightarrow> tensor result" where
  "tf_cond pred true_fn false_fn =
     bindE true_fn (\<lambda>a. bindE false_fn (\<lambda>b. Inr (if pred then a else b)))"

definition cset :: "tensor result \<Rightarrow> bool \<Rightarrow> tensor result \<Rightarrow> tensor result" where
  "cset cur_lambda new_cond new_lambda = tf_cond new_cond new_lambda cur_lambda"

text \<open>
  \<^verbatim>\<open>t.set_shape([None, n])\<close> and \<^verbatim>\<open>t.set_shape([None, c, h, w])\<close>: a tensor of another rank
  or of other dimensions raises.
\<close>

definition set_shape2 :: "tensor \<Rightarrow> nat \<Rightarrow> tensor result" where
  "set_shape2 t n =
     (case t of
        T2 r \<Rightarrow> if list_all (\<lambda>row. length row = n) r then Inr t else Inl ValueError
      | T4 _ \<Rightarrow> Inl ValueError)"

definition set_shape4 :: "tensor \<Rightarrow> nat \<Rightarrow> nat \<Rightarrow> nat \<Rightarrow> tensor result" where
  "set_shape4 t c h w =
     (case t of
        T4 r \<Rightarrow>
          if list_all (\<lambda>xn. length xn = c \<and>
               list_all (\<lambda>p. length p = h \<and> list_all (\<lambda>row. length row = w) p) xn) r
          then Inr t else Inl ValueError
      | T2 _ \<Rightarrow> Inl ValueError)"

text \<open>\<^verbatim>\<open>tf.slice(x, [0, s], [-1, size])\<close> on a rank 2 tensor.\<close>

definition tf_slice :: "tensor \<Rightarrow> nat \<Rightarrow> nat \<Rightarrow> tensor result" where
  "tf_slice x s sz =
     (case x of
        T2 r \<Rightarrow>
          if list_all (\<lambda>row. s + sz \<le> length row) r then Inr (T2 (map (\<lambda>row. take sz (drop s row)) r))
          else Inl ValueError
      | T4 _ \<Rightarrow> Inl ValueError)"

text \<open>
  \<^verbatim>\<open>tf.reshape(t, [-1, c, h, w])\<close> of a rank 2 tensor whose rows have \<open>c * h * w\<close>
  features: row-major, one sample per row.
\<close>

definition tf_reshape :: "tensor \<Rightarrow> nat \<Rightarrow> nat \<Rightarrow> nat \<Rightarrow> tensor result" where
  "tf_reshape t c h w =
     (case t of
        T2 r \<Rightarrow>
          if list_all (\<lambda>row. length row = c * h * w) r
          then Inr (T4 (map (\<lambda>row.
                 map (\<lambda>ci. map (\<lambda>hi. map (\<lambda>wi. row ! ((ci * h + hi) * w + wi)) [0..<w]) [0..<h]) [0..<c]) r))
          else Inl ValueError
      | T4 _ \<Rightarrow> Inl ValueError)"

text \<open>
  \<^verbatim>\<open>tf.concat(values, axis)\<close> of rank 4 tensors along the height (axis 2) or the width
  (axis 3); the other dimensions must agree.
\<close>

definition concat_pair :: "nat \<Rightarrow> tensor \<Rightarrow> tensor \<Rightarrow> tensor result" where
  "concat_pair axis a b =
     (case (a, b) of
        (T4 x, T4 y) \<Rightarrow>
          if axis = 2 then
            (if list_all2 (list_all2 (\<lambda>p q. list_all (\<lambda>r. list_all (\<lambda>s. length r = length s) q) p)) x y
             then Inr (T4 (map2 (map2 (@)) x y)) else Inl ValueError)
          else if axis = 3 then
            (if list_all2 (list_all2 (\<lambda>p q. length p = length q)) x y
             then Inr (T4 (map2 (map2 (map2 (@))) x y)) else Inl ValueError)
          else Inl ValueError
      | _ \<Rightarrow> Inl ValueError)"

fun tf_concat :: "tensor list \<Rightarrow> nat \<Rightarrow> tensor result" where
  "tf_concat [] axis = Inl ValueError"
| "tf_concat [t] axis = Inr t"
| "tf_concat (t # ts) axis = bindE (tf_concat ts axis) (\<lambda>r. concat_pair axis t r)"

section \<open>The generator \<^verbatim>\<open>G_puzzle\<close>\<close>

text \<open>
  The local functions of \<^verbatim>\<open>G_puzzle\<close> take what they capture in the source as arguments:
  the configuration \<open>c\<close>, the store \<open>st\<close>, \<open>first_log2 = int(np.log2(firstblock_res))\<close>,
  \<open>res_log2 = int(np.log2(resolution))\<close> and the value \<open>lod_in\<close> of the variable \<^verbatim>\<open>lod\<close>.
\<close>

definition PN :: "config \<Rightarrow> tensor \<Rightarrow> tensor" where
  "PN c x = (if use_pixelnorm c then pixel_norm x (pixelnorm_epsilon c) else x)"

definition G_act :: "config \<Rightarrow> tensor \<Rightarrow> tensor" where
  "G_act c x = (if use_leakyrelu c then leaky_relu x (2 / 10) else tf_nn_relu x)"

text \<open>
  The loop of \<^verbatim>\<open>first_layer\<close> that slices the latent vector: \<open>z\<close> is the list of the
  slices of the sizes \<open>latents_sizes\<close>, taken one after the other from offset \<open>s\<close>.
\<close>

fun latent_slices :: "tensor \<Rightarrow> nat \<Rightarrow> nat list \<Rightarrow> tensor list result" where
  "latent_slices x s [] = Inr []"
| "latent_slices x s (sz # sizes) =
     bindE (tf_slice x s sz) (\<lambda>z0. bindE (latent_slices x (s + sz) sizes) (\<lambda>zs. Inr (z0 # zs)))"

text \<open>
  \<^verbatim>\<open>z[k]\<close>: with an empty \<open>latents_sizes\<close> the loop never assigns \<open>z\<close> and the name is
  unbound; an index beyond the list raises.
\<close>

definition z_get :: "tensor list \<Rightarrow> nat \<Rightarrow> tensor result" where
  "z_get z k = (if z = [] then Inl NameError else if k < length z then Inr (z ! k) else Inl IndexError)"

text \<open>
  One tile of the puzzle, the pattern
  \<^verbatim>\<open>with tf.variable_scope(name): t = dense(z[k], fmaps=nf(res-1)*m, gain=np.sqrt(2)/4,
  use_wscale=use_wscale); t = tf.reshape(t, [-1, nf(res-1), h, w])\<close>.
\<close>

definition dense_tile ::
  "config \<Rightarrow> store \<Rightarrow> string list \<Rightarrow> nat \<Rightarrow> string \<Rightarrow> tensor list \<Rightarrow> nat \<Rightarrow> nat \<Rightarrow> nat \<Rightarrow> nat \<Rightarrow> tensor result" where
  "dense_tile c st scope res name z k m h w =
     bindE (z_get z k) (\<lambda>zk.
     bindE (dense st (scope @ [name]) zk (nat (nf c (int res - 1)) * m) (sqrt 2 / 4) (use_wscale c)) (\<lambda>t.
     tf_reshape t (nat (nf c (int res - 1))) h w))"

text \<open>The four branches of \<^verbatim>\<open>first_layer\<close>, one for each puzzle mode.\<close>

definition puzzle_2parts_faces :: "config \<Rightarrow> store \<Rightarrow> string list \<Rightarrow> nat \<Rightarrow> tensor list \<Rightarrow> tensor result" where
  "puzzle_2parts_faces c st scope res z =
     bindE (dense_tile c st scope res ''Dense11'' z 0 16 2 8) (\<lambda>x11.
     bindE (dense_tile c st scope res ''Dense12'' z 0 8 4 2) (\<lambda>x12.
     bindE (dense_tile c st scope res ''Dense13'' z 0 16 2 8) (\<lambda>x13.
     bindE (dense_tile c st scope res ''Dense14'' z 0 8 4 2) (\<lambda>x14.
     bindE (dense_tile c st scope res ''Dense2'' z 1 16 4 4) (\<lambda>x2.
     bindE (tf_concat [x12, x2, x14] 3) (\<lambda>mid.
     tf_concat [x11, mid, x13] 2))))))"

definition puzzle_5parts_faces :: "config \<Rightarrow> store \<Rightarrow> string list \<Rightarrow> nat \<Rightarrow> tensor list \<Rightarrow> tensor result" where
  "puzzle_5parts_faces c st scope res z =
     bindE (dense_tile c st scope res ''Dense11'' z 0 16 8 2) (\<lambda>x11.
     bindE (dense_tile c st scope res ''Dense12'' z 0 4 1 4) (\<lambda>x12.
     bindE (dense_tile c st scope res ''Dense13'' z 0 16 8 2) (\<lambda>x13.
     bindE (dense_tile c st scope res ''Dense2'' z 1 8 2 4) (\<lambda>x2.
     bindE (dense_tile c st scope res ''Dense3'' z 2 8 2 4) (\<lambda>x3.
     bindE (dense_tile c st scope res ''Dense4'' z 3 4 2 2) (\<lambda>x4.
     bindE (dense_tile c st scope res ''Dense51'' z 4 3 3 1) (\<lambda>x51.
     bindE (dense_tile c st scope res ''Dense52'' z 4 2 1 2) (\<lambda>x52.
     bindE (dense_tile c st scope res ''Dense53'' z 4 3 3 1) (\<lambda>x53.
     bindE (tf_concat [x4, x52] 2) (\<lambda>x452.
     bindE (tf_concat [x51, x452, x53] 3) (\<lambda>x.
     bindE (tf_concat [x12, x2, x3, x] 2) (\<lambda>x.
     tf_concat [x11, x, x13] 3))))))))))))"

definition puzzle_2parts_bedrooms :: "config \<Rightarrow> store \<Rightarrow> string list \<Rightarrow> nat \<Rightarrow> tensor list \<Rightarrow> tensor result" where
  "puzzle_2parts_bedrooms c st scope res z =
     bindE (dense_tile c st scope res ''Dense1'' z 0 32 4 8) (\<lambda>x1.
     bindE (dense_tile c st scope res ''Dense2'' z 1 32 4 8) (\<lambda>x2.
     tf_concat [x1, x2] 2))"

definition puzzle_4parts_digits :: "config \<Rightarrow> store \<Rightarrow> string list \<Rightarrow> nat \<Rightarrow> tensor list \<Rightarrow> tensor result" where
  "puzzle_4parts_digits c st scope res z =
     bindE (dense_tile c st scope res ''Dense1'' z 0 64 8 8) (\<lambda>x1.
     bindE (dense_tile c st scope res ''Dense2'' z 1 64 8 8) (\<lambda>x2.
     bindE (dense_tile c st scope res ''Dense3'' z 2 64 8 8) (\<lambda>x3.
     bindE (dense_tile c st scope res ''Dense4'' z 3 64 8 8) (\<lambda>x4.
     bindE (tf_concat [x1, x2] 3) (\<lambda>top.
     bindE (tf_concat [x3, x4] 3) (\<lambda>bot.
     tf_concat [top, bot] 2))))))"

text \<open>
  The tensor \<open>x\<close> that \<^verbatim>\<open>first_layer\<close> has assembled when it reaches its \<^verbatim>\<open>return\<close>: the
  four tests of \<open>mode\<close> follow one another, and a mode that none of them recognises leaves
  the argument \<open>x\<close> as it is.
\<close>

definition first_layer_assemble :: "config \<Rightarrow> store \<Rightarrow> string list \<Rightarrow> tensor \<Rightarrow> nat \<Rightarrow> tensor result" where
  "first_layer_assemble c st scope x res =
     bindE (latent_slices x 0 (latents_sizes c)) (\<lambda>z.
     bindE (if mode c = Some ''2parts-faces'' then puzzle_2parts_faces c st scope res z else Inr x) (\<lambda>x.
     bindE (if mode c = Some ''5parts-faces'' then puzzle_5parts_faces c st scope res z else Inr x) (\<lambda>x.
     bindE (if mode c = Some ''2parts-bedrooms'' then puzzle_2parts_bedrooms c st scope res z else Inr x) (\<lambda>x.
     (if mode c = Some ''4parts-digits'' then puzzle_4parts_digits c st scope res z else Inr x)))))"

text \<open>\<^verbatim>\<open>first_layer(x, mode, res)\<close>, ending in \<^verbatim>\<open>return PN(act(apply_bias(x)))\<close>.\<close>

definition first_layer :: "config \<Rightarrow> store \<Rightarrow> string list \<Rightarrow> tensor \<Rightarrow> nat \<Rightarrow> tensor result" where
  "first_layer c st scope x res =
     bindE (first_layer_assemble c st scope x res) (\<lambda>x. Inr (PN c (G_act c (apply_bias st scope x))))"

text \<open>\<^verbatim>\<open>block(x, res)\<close> of the generator, in the scope \<^verbatim>\<open>'%dx%d' % (2**res, 2**res)\<close>.\<close>

definition G_block :: "config \<Rightarrow> store \<Rightarrow> nat \<Rightarrow> tensor \<Rightarrow> nat \<Rightarrow> tensor result" where
  "G_block c st first_log2 x res =
     (let scope = [res_scope res]; fmaps = nat (nf c (int res - 1)) in
      if res = first_log2 then
        bindE (first_layer c st scope
                 (if normalize_latents c then pixel_norm x (pixelnorm_epsilon c) else x) res) (\<lambda>x.
        bindE (conv2d st (scope @ [''Conv'']) x fmaps 3 (sqrt 2) (use_wscale c)) (\<lambda>x.
        Inr (PN c (G_act c (apply_bias st (scope @ [''Conv'']) x)))))
      else
        bindE (if fused_scale c then
                 bindE (upscale2d_conv2d st (scope @ [''Conv0_up'']) x fmaps 3 (sqrt 2) (use_wscale c)) (\<lambda>x.
                 Inr (PN c (G_act c (apply_bias st (scope @ [''Conv0_up'']) x))))
               else
                 bindE (upscale2d x (PyInt 2)) (\<lambda>x.
                 bindE (conv2d st (scope @ [''Conv0'']) x fmaps 3 (sqrt 2) (use_wscale c)) (\<lambda>x.
                 Inr (PN c (G_act c (apply_bias st (scope @ [''Conv0'']) x)))))) (\<lambda>x.
        bindE (conv2d st (scope @ [''Conv1'']) x fmaps 3 (sqrt 2) (use_wscale c)) (\<lambda>x.
        Inr (PN c (G_act c (apply_bias st (scope @ [''Conv1'']) x))))))"

text \<open>\<^verbatim>\<open>torgb(x, res)\<close>, in the scope \<^verbatim>\<open>'ToRGB_lod%d' % (resolution_log2 - res)\<close>.\<close>

definition torgb :: "config \<Rightarrow> store \<Rightarrow> nat \<Rightarrow> tensor \<Rightarrow> nat \<Rightarrow> tensor result" where
  "torgb c st res_log2 x res =
     (let scope = [''ToRGB_lod'' @ string_of_int (int res_log2 - int res)] in
      bindE (conv2d st scope x (num_channels c) 1 1 (use_wscale c)) (\<lambda>y.
      Inr (apply_bias st scope y)))"

text \<open>
  The linear structure: the body of the loop
  \<^verbatim>\<open>for res in range(firstblock_res_log2 + 1, resolution_log2 + 1)\<close> on the pair
  \<open>(x, images_out)\<close>, over the list of the values of \<open>res\<close> still to come.
\<close>

fun G_linear_loop ::
  "config \<Rightarrow> store \<Rightarrow> nat \<Rightarrow> nat \<Rightarrow> real \<Rightarrow> nat list \<Rightarrow> tensor \<times> tensor \<Rightarrow> (tensor \<times> tensor) result" where
  "G_linear_loop c st first_log2 res_log2 lod_in [] (x, images_out) = Inr (x, images_out)"
| "G_linear_loop c st first_log2 res_log2 lod_in (res # rest) (x, images_out) =
     (let lod = int res_log2 - int res in
      bindE (G_block c st first_log2 x res) (\<lambda>x.
      bindE (torgb c st res_log2 x res) (\<lambda>img.
      bindE (upscale2d images_out (PyInt 2)) (\<lambda>images_out.
      bindE (lerp_clip_t img images_out (lod_in - real_of_int lod)) (\<lambda>images_out.
      G_linear_loop c st first_log2 res_log2 lod_in rest (x, images_out))))))"

definition G_linear :: "config \<Rightarrow> store \<Rightarrow> nat \<Rightarrow> nat \<Rightarrow> real \<Rightarrow> tensor \<Rightarrow> tensor result" where
  "G_linear c st first_log2 res_log2 lod_in combo_in =
     bindE (G_block c st first_log2 combo_in first_log2) (\<lambda>x.
     bindE (torgb c st res_log2 x first_log2) (\<lambda>images_out.
     bindE (G_linear_loop c st first_log2 res_log2 lod_in [first_log2 + 1 ..< res_log2 + 1] (x, images_out))
       (\<lambda>(x, images_out). Inr images_out)))"

text \<open>
  The recursive structure, \<^verbatim>\<open>grow(x, res, lod)\<close>: \<open>img\<close> is the plain image, replaced under
  \<^verbatim>\<open>cset\<close> by the blend with the coarser image when \<open>res\<close> is above the first block, and by
  the deeper recursion when \<open>lod > 0\<close>.
\<close>

function G_grow ::
  "config \<Rightarrow> store \<Rightarrow> nat \<Rightarrow> nat \<Rightarrow> real \<Rightarrow> tensor \<Rightarrow> nat \<Rightarrow> int \<Rightarrow> tensor result" where
  "G_grow c st first_log2 res_log2 lod_in x res lod =
     bindE (G_block c st first_log2 x res) (\<lambda>y.
       let img = bindE (torgb c st res_log2 y res) (\<lambda>t. upscale2d t (py_pow2 lod));
           img = (if res > first_log2 then
                    cset img (lod_in > real_of_int lod)
                      (bindE (torgb c st res_log2 y res) (\<lambda>a.
                       bindE (torgb c st res_log2 x (res - 1)) (\<lambda>b.
                       bindE (upscale2d b (PyInt 2)) (\<lambda>b.
                       bindE (lerp_t a b (lod_in - real_of_int lod)) (\<lambda>l.
                       upscale2d l (py_pow2 lod))))))
                  else img);
           img = (if lod > 0 then
                    cset img (lod_in < real_of_int lod)
                      (G_grow c st first_log2 res_log2 lod_in y (res + 1) (lod - 1))
                  else img)
       in img)"
  by pat_completeness auto
termination
  by (relation "measure (\<lambda>(c, st, first_log2, res_log2, lod_in, x, res, lod). nat lod)") auto

declare G_grow.simps [simp del]

text \<open>
  \<^verbatim>\<open>G_puzzle(latents_in, labels_in, **kwargs)\<close>. \<open>images_out\<close> starts as \<^verbatim>\<open>None\<close>; a
  structure that is neither \<^verbatim>\<open>'linear'\<close> nor \<^verbatim>\<open>'recursive'\<close> leaves it so, and the final
  read of its \<^verbatim>\<open>dtype\<close> raises.
\<close>

definition G_puzzle :: "config \<Rightarrow> store \<Rightarrow> real \<Rightarrow> tensor \<Rightarrow> tensor \<Rightarrow> tensor result" where
  "G_puzzle c st lod_in latents_in labels_in =
     bindE (int_log2 (resolution c)) (\<lambda>res_log2.
     if \<not> (resolution c = 2 ^ res_log2 \<and> resolution c \<ge> 4) then Inl AssertionError
     else
       (let lsize = (case latent_size c of None \<Rightarrow> nat (nf c 0) | Some n \<Rightarrow> n);
            struct = (case structure_arg c of
                        None \<Rightarrow> if is_template_graph c then ''linear'' else ''recursive''
                      | Some s \<Rightarrow> s)
        in
        bindE (int_log2 (firstblock_res c)) (\<lambda>first_log2.
        bindE (set_shape2 latents_in lsize) (\<lambda>combo_in.
        bindE (set_shape2 labels_in (label_size c)) (\<lambda>_.
        bindE (if struct = ''linear''
               then bindE (G_linear c st first_log2 res_log2 lod_in combo_in) (\<lambda>t. Inr (Some t))
               else Inr None) (\<lambda>images_out.
        bindE (if struct = ''recursive''
               then bindE (G_grow c st first_log2 res_log2 lod_in combo_in first_log2
                             (int res_log2 - int first_log2)) (\<lambda>t. Inr (Some t))
               else Inr images_out) (\<lambda>images_out.
        case images_out of None \<Rightarrow> Inl AttributeError | Some t \<Rightarrow> Inr t)))))))"

section \<open>The discriminator \<^verbatim>\<open>D_puzzle\<close>\<close>

text \<open>The activation of the discriminator is always \<^verbatim>\<open>leaky_relu\<close>.\<close>

definition D_act :: "tensor \<Rightarrow> tensor" where
  "D_act x = leaky_relu x (2 / 10)"

text \<open>\<^verbatim>\<open>fromrgb(x, res)\<close>, in the scope \<^verbatim>\<open>'FromRGB_lod%d' % (resolution_log2 - res)\<close>.\<close>

definition fromrgb :: "config \<Rightarrow> store \<Rightarrow> nat \<Rightarrow> tensor \<Rightarrow> nat \<Rightarrow> tensor result" where
  "fromrgb c st res_log2 x res =
     (let scope = [''FromRGB_lod'' @ string_of_int (int res_log2 - int res)] in
      bindE (conv2d st scope x (nat (nf c (int res - 1))) 1 (sqrt 2) (use_wscale c)) (\<lambda>y.
      Inr (D_act (apply_bias st scope y))))"

text \<open>\<^verbatim>\<open>block(x, res)\<close> of the discriminator.\<close>

definition D_block :: "config \<Rightarrow> store \<Rightarrow> nat \<Rightarrow> tensor \<Rightarrow> nat \<Rightarrow> tensor result" where
  "D_block c st first_log2 x res =
     (let scope = [res_scope res] in
      if res > first_log2 then
        bindE (conv2d st (scope @ [''Conv0'']) x (nat (nf c (int res - 1))) 3 (sqrt 2) (use_wscale c)) (\<lambda>x.
        let x = D_act (apply_bias st (scope @ [''Conv0'']) x) in
        if fused_scale c then
          bindE (conv2d_downscale2d st (scope @ [''Conv1_down'']) x (nat (nf c (int res - 2))) 3 (sqrt 2)
                   (use_wscale c)) (\<lambda>x.
          Inr (D_act (apply_bias st (scope @ [''Conv1_down'']) x)))
        else
          bindE (conv2d st (scope @ [''Conv1'']) x (nat (nf c (int res - 2))) 3 (sqrt 2) (use_wscale c)) (\<lambda>x.
          downscale2d (D_act (apply_bias st (scope @ [''Conv1'']) x)) (PyInt 2)))
      else
        bindE (if mbstd_group_size c > 1 then minibatch_stddev_layer x (mbstd_group_size c) else Inr x) (\<lambda>x.
        bindE (conv2d st (scope @ [''Conv'']) x (nat (nf c (int res - 1))) 3 (sqrt 2) (use_wscale c)) (\<lambda>x.
        let x = D_act (apply_bias st (scope @ [''Conv'']) x) in
        bindE (dense st (scope @ [''Dense0'']) x (nat (nf c (int res - 2))) (sqrt 2) (use_wscale c)) (\<lambda>x.
        let x = D_act (apply_bias st (scope @ [''Dense0'']) x) in
        bindE (dense st (scope @ [''Dense1'']) x 1 1 (use_wscale c)) (\<lambda>x.
        Inr (apply_bias st (scope @ [''Dense1'']) x))))))"

text \<open>
  The linear structure: the body of the loop
  \<^verbatim>\<open>for res in range(resolution_log2, firstblock_res_log2, -1)\<close> on the pair \<open>(img, x)\<close>.
\<close>

fun D_linear_loop ::
  "config \<Rightarrow> store \<Rightarrow> nat \<Rightarrow> nat \<Rightarrow> real \<Rightarrow> nat list \<Rightarrow> tensor \<times> tensor \<Rightarrow> (tensor \<times> tensor) result" where
  "D_linear_loop c st first_log2 res_log2 lod_in [] (img, x) = Inr (img, x)"
| "D_linear_loop c st first_log2 res_log2 lod_in (res # rest) (img, x) =
     (let lod = int res_log2 - int res in
      bindE (D_block c st first_log2 x res) (\<lambda>x.
      bindE (downscale2d img (PyInt 2)) (\<lambda>img.
      bindE (fromrgb c st res_log2 img (res - 1)) (\<lambda>y.
      bindE (lerp_clip_t x y (lod_in - real_of_int lod)) (\<lambda>x.
      D_linear_loop c st first_log2 res_log2 lod_in rest (img, x))))))"

definition D_linear :: "config \<Rightarrow> store \<Rightarrow> nat \<Rightarrow> nat \<Rightarrow> real \<Rightarrow> tensor \<Rightarrow> tensor result" where
  "D_linear c st first_log2 res_log2 lod_in images_in =
     bindE (fromrgb c st res_log2 images_in res_log2) (\<lambda>x.
     bindE (D_linear_loop c st first_log2 res_log2 lod_in (rev [first_log2 + 1 ..< res_log2 + 1])
              (images_in, x)) (\<lambda>(img, x).
     D_block c st first_log2 x first_log2))"

text \<open>The recursive structure, \<^verbatim>\<open>grow(res, lod)\<close>.\<close>

function D_grow ::
  "config \<Rightarrow> store \<Rightarrow> nat \<Rightarrow> nat \<Rightarrow> real \<Rightarrow> tensor \<Rightarrow> nat \<Rightarrow> int \<Rightarrow> tensor result" where
  "D_grow c st first_log2 res_log2 lod_in images_in res lod =
     (let x = bindE (downscale2d images_in (py_pow2 lod)) (\<lambda>d. fromrgb c st res_log2 d res);
          x = (if lod > 0 then
                 cset x (lod_in < real_of_int lod)
                   (D_grow c st first_log2 res_log2 lod_in images_in (res + 1) (lod - 1))
               else x)
      in
      bindE x (\<lambda>x0.
      bindE (D_block c st first_log2 x0 res) (\<lambda>x.
      if res > first_log2 then
        cset (Inr x) (lod_in > real_of_int lod)
          (bindE (downscale2d images_in (py_pow2 (lod + 1))) (\<lambda>d.
           bindE (fromrgb c st res_log2 d (res - 1)) (\<lambda>y.
           lerp_t x y (lod_in - real_of_int lod))))
      else Inr x)))"
  by pat_completeness auto
termination
  by (relation "measure (\<lambda>(c, st, first_log2, res_log2, lod_in, images_in, res, lod). nat lod)") auto

declare D_grow.simps [simp del]

text \<open>\<^verbatim>\<open>D_puzzle(images_in, labels_in, **kwargs)\<close>.\<close>

definition D_puzzle :: "config \<Rightarrow> store \<Rightarrow> real \<Rightarrow> tensor \<Rightarrow> tensor \<Rightarrow> tensor result" where
  "D_puzzle c st lod_in images_in labels_in =
     bindE (int_log2 (resolution c)) (\<lambda>res_log2.
     if \<not> (resolution c = 2 ^ res_log2 \<and> resolution c \<ge> 4) then Inl AssertionError
     else
       (let struct = (case structure_arg c of
                        None \<Rightarrow> if is_template_graph c then ''linear'' else ''recursive''
                      | Some s \<Rightarrow> s)
        in
        bindE (int_log2 (firstblock_res c)) (\<lambda>first_log2.
        bindE (set_shape4 images_in (num_channels c) (resolution c) (resolution c)) (\<lambda>images_in.
        bindE (set_shape2 labels_in (label_size c)) (\<lambda>_.
        bindE (if struct = ''linear''
               then bindE (D_linear c st first_log2 res_log2 lod_in images_in) (\<lambda>t. Inr (Some t))
               else Inr None) (\<lambda>scores_out.
        bindE (if struct = ''recursive''
               then bindE (D_grow c st first_log2 res_log2 lod_in images_in first_log2
                             (int res_log2 - int first_log2)) (\<lambda>t. Inr (Some t))
               else Inr scores_out) (\<lambda>scores_out.
        case scores_out of None \<Rightarrow> Inl AttributeError | Some t \<Rightarrow> Inr t)))))))"


section \<open>Tensors of rank 4 pass every layer but the first\<close>

fun is_T4 :: "tensor \<Rightarrow> bool" where
  "is_T4 (T4 _) = True"
| "is_T4 (T2 _) = False"

lemma is_T4_iff: "is_T4 x \<longleftrightarrow> (\<exists>xs. x = T4 xs)"
  by (cases x) simp_all

lemma get_weight_Inr:
  "\<exists>w. get_weight st scope shape gain wscale = Inr w \<and> vshape w = shape"
  by (simp add: get_weight_def get_variable_def Let_def)

lemma tf_nn_conv2d_T4:
  "vshape w = [kh, kw, cin, cout] \<Longrightarrow> \<exists>ys. tf_nn_conv2d (T4 xs) w s = Inr (T4 ys)"
  by (simp add: tf_nn_conv2d_def)

lemma tf_nn_conv2d_T2 [simp]: "tf_nn_conv2d (T2 r) w s = Inl ValueError"
  by (simp add: tf_nn_conv2d_def)

lemma conv2d_T4:
  assumes "kern \<ge> 1" "kern mod 2 = 1"
  shows "\<exists>ys. conv2d st scope (T4 xs) fmaps kern gain wscale = Inr (T4 ys)"
proof -
  obtain w where w: "get_weight st scope [kern, kern, dim1 (T4 xs), fmaps] gain wscale = Inr w"
    "vshape w = [kern, kern, dim1 (T4 xs), fmaps]"
    using get_weight_Inr by blast
  from tf_nn_conv2d_T4[OF w(2)] obtain ys where "tf_nn_conv2d (T4 xs) w 1 = Inr (T4 ys)" by blast
  with w assms show ?thesis by (simp add: conv2d_def)
qed

lemma conv2d_T4_one: "\<exists>ys. conv2d st scope (T4 xs) fmaps 1 gain wscale = Inr (T4 ys)"
  by (rule conv2d_T4) simp_all

lemma tf_nn_conv2d_Inr_T4: "tf_nn_conv2d x w s = Inr y \<Longrightarrow> is_T4 y"
  by (auto simp: tf_nn_conv2d_def split: tensor.split_asm list.split_asm)

lemma conv2d_Inr_T4: "conv2d st scope x fmaps kern gain wscale = Inr y \<Longrightarrow> is_T4 y"
  by (auto simp: conv2d_def bindE_eq_Inr_iff split: if_split_asm dest: tf_nn_conv2d_Inr_T4)

lemma apply_bias_T4 [simp]: "is_T4 (apply_bias st scope x) = is_T4 x"
  by (cases x) (simp_all add: apply_bias_def Let_def)

lemma ew1_T4 [simp]: "is_T4 (ew1 f x) = is_T4 x"
  by (cases x) simp_all

lemma pixel_norm_T4 [simp]: "is_T4 (pixel_norm x e) = is_T4 x"
  by (cases x) (simp_all add: pixel_norm_def)

lemma PN_T4 [simp]: "is_T4 (PN c x) = is_T4 x"
  by (simp add: PN_def)

lemma G_act_T4 [simp]: "is_T4 (G_act c x) = is_T4 x"
  by (simp add: G_act_def leaky_relu_def tf_nn_relu_def)

lemma D_act_T4 [simp]: "is_T4 (D_act x) = is_T4 x"
  by (simp add: D_act_def leaky_relu_def)

lemma upscale2d_T4:
  "1 \<le> f \<Longrightarrow> \<exists>ys. upscale2d (T4 xs) (PyInt f) = Inr (T4 ys)"
  by (simp add: upscale2d_def)

lemma downscale2d_T4:
  "1 \<le> f \<Longrightarrow> \<exists>ys. downscale2d (T4 xs) (PyInt f) = Inr (T4 ys)"
  by (simp add: downscale2d_def tf_nn_avg_pool_def)

lemma vshape_fused [simp]:
  "vshape (tf_add_n4 w1 w2 w3 w4) = vshape w1"
  "vshape (var_scale w k) = vshape w"
  by (simp_all add: tf_add_n4_def var_scale_def)

lemma vshape_ops:
  "vshape w = [a, b, c, d] \<Longrightarrow> vshape (tf_pad_hw w) = [a + 2, b + 2, c, d]"
  "vshape w = [a, b, c, d] \<Longrightarrow> vshape (tf_transpose_0132 w) = [a, b, d, c]"
  "vshape w = [a, b, c, d] \<Longrightarrow> vshape (slice_hw a0 b0 w) = [a - 1, b - 1, c, d]"
  by (simp_all add: tf_pad_hw_def tf_transpose_0132_def slice_hw_def)

lemma upscale2d_conv2d_T4:
  assumes "kern \<ge> 1" "kern mod 2 = 1"
  shows "\<exists>ys. upscale2d_conv2d st scope (T4 xs) fmaps kern gain wscale = Inr (T4 ys)"
proof -
  obtain w where w: "get_weight st scope [kern, kern, dim1 (T4 xs), fmaps] gain wscale = Inr w"
    "vshape w = [kern, kern, dim1 (T4 xs), fmaps]"
    using get_weight_Inr by blast
  let ?p = "tf_pad_hw (tf_transpose_0132 w)"
  have "vshape (slice_hw 1 1 ?p) = [kern + 1, kern + 1, fmaps, dim1 (T4 xs)]"
    using w(2) by (simp add: vshape_ops)
  then show ?thesis
    using w assms by (simp add: upscale2d_conv2d_def Let_def tf_nn_conv2d_transpose_def)
qed

lemma conv2d_downscale2d_T4:
  assumes "kern \<ge> 1" "kern mod 2 = 1"
  shows "\<exists>ys. conv2d_downscale2d st scope (T4 xs) fmaps kern gain wscale = Inr (T4 ys)"
proof -
  obtain w where w: "get_weight st scope [kern, kern, dim1 (T4 xs), fmaps] gain wscale = Inr w"
    "vshape w = [kern, kern, dim1 (T4 xs), fmaps]"
    using get_weight_Inr by blast
  have "vshape (slice_hw 1 1 (tf_pad_hw w)) = [kern + 1, kern + 1, dim1 (T4 xs), fmaps]"
    using w(2) by (simp add: vshape_ops)
  then show ?thesis
    using w assms by (simp add: conv2d_downscale2d_def Let_def tf_nn_conv2d_def)
qed

lemma torgb_T4: "is_T4 x \<Longrightarrow> \<exists>t. torgb c st res_log2 x res = Inr t \<and> is_T4 t"
proof -
  assume "is_T4 x"
  then obtain xs where x: "x = T4 xs" by (auto simp: is_T4_iff)
  obtain ys where "conv2d st [''ToRGB_lod'' @ string_of_int (int res_log2 - int res)] (T4 xs)
      (num_channels c) 1 1 (use_wscale c) = Inr (T4 ys)"
    using conv2d_T4_one by blast
  with x show ?thesis by (simp add: torgb_def Let_def)
qed

lemma fromrgb_T4: "is_T4 x \<Longrightarrow> \<exists>t. fromrgb c st res_log2 x res = Inr t \<and> is_T4 t"
proof -
  assume "is_T4 x"
  then obtain xs where x: "x = T4 xs" by (auto simp: is_T4_iff)
  obtain ys where "conv2d st [''FromRGB_lod'' @ string_of_int (int res_log2 - int res)] (T4 xs)
      (nat (nf c (int res - 1))) 1 (sqrt 2) (use_wscale c) = Inr (T4 ys)"
    using conv2d_T4_one by blast
  with x show ?thesis by (simp add: fromrgb_def Let_def)
qed

lemma G_block_T4:
  assumes "is_T4 x" "res \<noteq> first_log2"
  shows "\<exists>y. G_block c st first_log2 x res = Inr y \<and> is_T4 y"
proof -
  from assms obtain xs where x: "x = T4 xs" by (auto simp: is_T4_iff)
  let ?f = "nat (nf c (int res - 1))"
  have k3: "(3::nat) \<ge> 1" "(3::nat) mod 2 = 1" by simp_all
  have "\<exists>ys. (if fused_scale c then
                 bindE (upscale2d_conv2d st ([res_scope res] @ [''Conv0_up'']) x ?f 3 (sqrt 2) (use_wscale c)) (\<lambda>x.
                 Inr (PN c (G_act c (apply_bias st ([res_scope res] @ [''Conv0_up'']) x))))
               else
                 bindE (upscale2d x (PyInt 2)) (\<lambda>x.
                 bindE (conv2d st ([res_scope res] @ [''Conv0'']) x ?f 3 (sqrt 2) (use_wscale c)) (\<lambda>x.
                 Inr (PN c (G_act c (apply_bias st ([res_scope res] @ [''Conv0'']) x)))))) = Inr ys \<and> is_T4 ys"
  proof (cases "fused_scale c")
    case True
    obtain ys where "upscale2d_conv2d st ([res_scope res] @ [''Conv0_up'']) (T4 xs) ?f 3 (sqrt 2) (use_wscale c) = Inr (T4 ys)"
      using upscale2d_conv2d_T4[OF k3] by blast
    with True x show ?thesis by simp
  next
    case False
    obtain us where u: "upscale2d (T4 xs) (PyInt 2) = Inr (T4 us)"
      using upscale2d_T4[of 2] by auto
    obtain ys where "conv2d st ([res_scope res] @ [''Conv0'']) (T4 us) ?f 3 (sqrt 2) (use_wscale c) = Inr (T4 ys)"
      using conv2d_T4[OF k3] by blast
    with False x u show ?thesis by simp
  qed
  then obtain m where m: "(if fused_scale c then
                 bindE (upscale2d_conv2d st ([res_scope res] @ [''Conv0_up'']) x ?f 3 (sqrt 2) (use_wscale c)) (\<lambda>x.
                 Inr (PN c (G_act c (apply_bias st ([res_scope res] @ [''Conv0_up'']) x))))
               else
                 bindE (upscale2d x (PyInt 2)) (\<lambda>x.
                 bindE (conv2d st ([res_scope res] @ [''Conv0'']) x ?f 3 (sqrt 2) (use_wscale c)) (\<lambda>x.
                 Inr (PN c (G_act c (apply_bias st ([res_scope res] @ [''Conv0'']) x)))))) = Inr m" "is_T4 m"
    by blast
  then obtain ms where ms: "m = T4 ms" by (auto simp: is_T4_iff)
  obtain ys where "conv2d st ([res_scope res] @ [''Conv1'']) (T4 ms) ?f 3 (sqrt 2) (use_wscale c) = Inr (T4 ys)"
    using conv2d_T4[OF k3] by blast
  with m ms assms(2) show ?thesis
    by (simp add: G_block_def Let_def)
qed

lemma G_block_first_T4:
  "G_block c st first_log2 x first_log2 = Inr y \<Longrightarrow> is_T4 y"
  by (auto simp: G_block_def Let_def bindE_eq_Inr_iff dest: conv2d_Inr_T4)

lemma D_block_T4:
  assumes "is_T4 x" "res > first_log2"
  shows "\<exists>y. D_block c st first_log2 x res = Inr y \<and> is_T4 y"
proof -
  from assms obtain xs where x: "x = T4 xs" by (auto simp: is_T4_iff)
  have k3: "(3::nat) \<ge> 1" "(3::nat) mod 2 = 1" by simp_all
  obtain ys where y: "conv2d st ([res_scope res] @ [''Conv0'']) (T4 xs) (nat (nf c (int res - 1))) 3 (sqrt 2) (use_wscale c) = Inr (T4 ys)"
    using conv2d_T4[OF k3] by blast
  let ?a = "D_act (apply_bias st ([res_scope res] @ [''Conv0'']) (T4 ys))"
  obtain as where a: "?a = T4 as" using is_T4_iff[of ?a] by auto
  obtain zs where z: "conv2d_downscale2d st ([res_scope res] @ [''Conv1_down'']) (T4 as) (nat (nf c (int res - 2))) 3 (sqrt 2) (use_wscale c) = Inr (T4 zs)"
    using conv2d_downscale2d_T4[OF k3] by blast
  obtain vs where v: "conv2d st ([res_scope res] @ [''Conv1'']) (T4 as) (nat (nf c (int res - 2))) 3 (sqrt 2) (use_wscale c) = Inr (T4 vs)"
    using conv2d_T4[OF k3] by blast
  let ?b = "D_act (apply_bias st ([res_scope res] @ [''Conv1'']) (T4 vs))"
  obtain bs where b: "?b = T4 bs" using is_T4_iff[of ?b] by auto
  obtain ds where d: "downscale2d (T4 bs) (PyInt 2) = Inr (T4 ds)"
    using downscale2d_T4[of 2] by auto
  show ?thesis
    using assms(2) x y a z v b d by (simp add: D_block_def Let_def)
qed


section \<open>Repeated upscaling\<close>

lemma concat_replicate_replicate: "concat (replicate b (replicate a v)) = replicate (b * a) v"
  by (induction b) (simp_all add: replicate_add)

lemma upscale_row_twice:
  "concat (map (replicate a) (concat (map (replicate b) r))) = concat (map (replicate (b * a)) r)"
  by (induction r) (simp_all add: concat_replicate_replicate)

lemma concat_map_replicate_rows:
  "concat (map (\<lambda>r. replicate a (h r)) (replicate b r0)) = replicate (b * a) (h r0)"
  by (induction b) (simp_all add: replicate_add)

lemma upscale_plane_twice: "upscale_plane a (upscale_plane b p) = upscale_plane (b * a) p"
  by (induction p)
    (simp_all add: upscale_plane_def concat_map_replicate_rows upscale_row_twice
       concat_replicate_replicate)

lemma upscale_row_one: "concat (map (replicate (Suc 0)) r) = r"
  by (induction r) simp_all

lemma upscale_plane_one: "upscale_plane (Suc 0) p = p"
  by (induction p) (simp_all add: upscale_plane_def upscale_row_one)

lemma py_pow2_nat: "py_pow2 (int n) = PyInt (2 ^ n)"
  by (simp add: py_pow2_def)

lemma upscale2d_PyInt_T4:
  "1 \<le> f \<Longrightarrow> upscale2d (T4 xs) (PyInt f) = Inr (T4 (map (map (upscale_plane (nat f))) xs))"
  by (cases "f = 1") (simp_all add: upscale2d_def upscale_plane_one map_idI)

lemma upscale2d_twice:
  assumes "upscale2d (T4 xs) (PyInt 2) = Inr u"
  shows "upscale2d u (py_pow2 (int n)) = upscale2d (T4 xs) (py_pow2 (int n + 1))"
proof -
  from assms have u: "u = T4 (map (map (upscale_plane 2)) xs)" by (simp add: upscale2d_def)
  have p: "py_pow2 (int n + 1) = PyInt (2 ^ Suc n)"
    using py_pow2_nat[of "Suc n"] by (simp add: add.commute)
  have n1: "nat ((2::int) ^ n) = 2 ^ n" and n2: "nat ((2::int) ^ Suc n) = 2 * 2 ^ n"
    by (simp_all add: nat_power_eq nat_mult_distrib)
  have g1: "(1::int) \<le> 2 ^ n" by (rule one_le_power) simp
  have g2: "(1::int) \<le> 2 ^ Suc n" by (rule one_le_power) simp
  have a: "upscale2d u (PyInt (2 ^ n))
         = Inr (T4 (map (map (upscale_plane (2 ^ n))) (map (map (upscale_plane 2)) xs)))"
    unfolding u using upscale2d_PyInt_T4[OF g1] n1 by simp
  have b: "upscale2d (T4 xs) (PyInt (2 ^ Suc n))
         = Inr (T4 (map (map (upscale_plane (2 * 2 ^ n))) xs))"
    using upscale2d_PyInt_T4[OF g2, of xs] n2 by simp
  have "map (map (upscale_plane (2 ^ n))) (map (map (upscale_plane 2)) xs)
      = map (map (upscale_plane (2 * 2 ^ n))) xs"
    by (simp add: upscale_plane_twice comp_def)
  with a b show ?thesis unfolding p py_pow2_nat by simp
qed

section \<open>Shapes under upscaling\<close>

lemma length_upscale_row: "length (concat (map (replicate f) r)) = f * length r"
  by (induction r) simp_all

lemma same_shape2_append:
  "same_shape2 a b \<Longrightarrow> same_shape2 c d \<Longrightarrow> same_shape2 (a @ c) (b @ d)"
  unfolding same_shape2_def by (rule list_all2_appendI)

lemma same_shape2_replicate:
  "length r = length s \<Longrightarrow> same_shape2 (replicate f r) (replicate f s)"
  unfolding same_shape2_def by (induction f) simp_all

lemma same_shape2_upscale_plane:
  "same_shape2 p q \<Longrightarrow> same_shape2 (upscale_plane f p) (upscale_plane f q)"
  unfolding same_shape2_def
proof (induction rule: list_all2_induct)
  case Nil
  then show ?case by (simp add: upscale_plane_def)
next
  case (Cons r p s q)
  have "same_shape2 (replicate f (concat (map (replicate f) r)) @ upscale_plane f p)
          (replicate f (concat (map (replicate f) s)) @ upscale_plane f q)"
    using Cons by (intro same_shape2_append same_shape2_replicate)
      (simp_all add: length_upscale_row same_shape2_def)
  then show ?case by (simp add: upscale_plane_def same_shape2_def)
qed

lemma list_all2_map_both:
  "list_all2 P x y \<Longrightarrow> (\<And>u v. P u v \<Longrightarrow> Q (f u) (f v)) \<Longrightarrow> list_all2 Q (map f x) (map f y)"
  by (induction rule: list_all2_induct) simp_all

lemma same_shape4_upscale:
  "same_shape4 x y \<Longrightarrow>
     same_shape4 (map (map (upscale_plane f)) x) (map (map (upscale_plane f)) y)"
  unfolding same_shape4_def
  by (erule list_all2_map_both, erule list_all2_map_both) (rule same_shape2_upscale_plane)

lemma same_shape_upscale2d:
  assumes "same_shape a b" "upscale2d a (PyInt f) = Inr a'" "upscale2d b (PyInt f) = Inr b'"
  shows "same_shape a' b'"
proof (cases "f = 1")
  case True
  with assms show ?thesis by (simp add: upscale2d_def)
next
  case False
  with assms show ?thesis
    by (cases a; cases b) (auto simp: upscale2d_def same_shape4_upscale split: if_split_asm)
qed

lemma same_shape_is_T4: "same_shape a b \<Longrightarrow> is_T4 a = is_T4 b"
  by (cases a; cases b) simp_all

section \<open>The outcomes of an interpolation\<close>

lemma lerp_t_outcome:
  "(\<not> same_shape a b \<and> lerp_t a b t = Inl ValueError) \<or>
   (same_shape a b \<and> (\<exists>r. lerp_t a b t = Inr r \<and> same_shape r a))"
  unfolding lerp_t_eq
  using ew2_not_same ew2_same_ex ew2_Inr_shape by metis

lemma lerp_clip_t_outcome:
  "(\<not> same_shape a b \<and> lerp_clip_t a b t = Inl ValueError) \<or>
   (same_shape a b \<and> (\<exists>r. lerp_clip_t a b t = Inr r \<and> same_shape r a))"
  unfolding lerp_clip_t_eq
  using ew2_not_same ew2_same_ex ew2_Inr_shape by metis

lemma tf_cond_Inr [simp]: "tf_cond p (Inr a) (Inr b) = Inr (if p then a else b)"
  by (simp add: tf_cond_def)

lemma tf_cond_Inl [simp]: "tf_cond p (Inl e) f = Inl e" "tf_cond p (Inr a) (Inl e) = Inl e"
  by (simp_all add: tf_cond_def)


section \<open>The two structures of the generator agree\<close>

text \<open>The image the linear structure ends with, from a state of its loop.\<close>

definition G_linear_rest ::
  "config \<Rightarrow> store \<Rightarrow> nat \<Rightarrow> nat \<Rightarrow> real \<Rightarrow> nat list \<Rightarrow> tensor \<times> tensor \<Rightarrow> tensor result" where
  "G_linear_rest c st first_log2 res_log2 lod_in rs s =
     bindE (G_linear_loop c st first_log2 res_log2 lod_in rs s) (\<lambda>(x, images_out). Inr images_out)"

text \<open>
  What one level of the recursion and the rest of the loop have in common: both fail on a
  shape error, or both succeed; below \<open>lod + 1\<close> the recursion yields the image of the loop
  when the loop starts from the coarser image itself, and from \<open>lod + 1\<close> on the loop only
  upscales the image it starts from.
\<close>

definition G_agree ::
  "config \<Rightarrow> store \<Rightarrow> nat \<Rightarrow> nat \<Rightarrow> real \<Rightarrow> nat \<Rightarrow> nat \<Rightarrow> tensor \<Rightarrow> tensor \<Rightarrow> tensor \<Rightarrow> bool" where
  "G_agree c st first_log2 res_log2 lod_in n res x out t0 \<longleftrightarrow>
     (G_linear_rest c st first_log2 res_log2 lod_in [res ..< res_log2 + 1] (x, out) = Inl ValueError \<and>
      G_grow c st first_log2 res_log2 lod_in x res (int n) = Inl ValueError) \<or>
     (\<exists>v r. G_linear_rest c st first_log2 res_log2 lod_in [res ..< res_log2 + 1] (x, out) = Inr v \<and>
            G_grow c st first_log2 res_log2 lod_in x res (int n) = Inr r \<and>
            (lod_in < real n + 1 \<longrightarrow> out = t0 \<longrightarrow> r = v) \<and>
            (real n + 1 \<le> lod_in \<longrightarrow> upscale2d out (py_pow2 (int n + 1)) = Inr v))"

lemma G_linear_rest_Nil [simp]:
  "G_linear_rest c st first_log2 res_log2 lod_in [] (x, out) = Inr out"
  by (simp add: G_linear_rest_def)

lemma G_linear_rest_Cons:
  assumes "G_block c st first_log2 x res = Inr y" "torgb c st res_log2 y res = Inr img"
    "upscale2d out (PyInt 2) = Inr uo"
  shows "G_linear_rest c st first_log2 res_log2 lod_in (res # rs) (x, out) =
     bindE (lerp_clip_t img uo (lod_in - real_of_int (int res_log2 - int res)))
       (\<lambda>o'. G_linear_rest c st first_log2 res_log2 lod_in rs (y, o'))"
  using assms by (cases "lerp_clip_t img uo (lod_in - real_of_int (int res_log2 - int res))")
    (simp_all add: G_linear_rest_def Let_def)

lemma G_grow_unfold:
  assumes "G_block c st first_log2 x res = Inr y" "torgb c st res_log2 y res = Inr img"
    "upscale2d img (py_pow2 lod) = Inr pl" "first_log2 < res"
    "torgb c st res_log2 x (res - 1) = Inr t0" "upscale2d t0 (PyInt 2) = Inr u0"
  shows "G_grow c st first_log2 res_log2 lod_in x res lod =
     (if lod > 0 then
        tf_cond (lod_in < real_of_int lod)
          (G_grow c st first_log2 res_log2 lod_in y (res + 1) (lod - 1))
          (tf_cond (lod_in > real_of_int lod)
             (bindE (lerp_t img u0 (lod_in - real_of_int lod)) (\<lambda>l. upscale2d l (py_pow2 lod)))
             (Inr pl))
      else
        tf_cond (lod_in > real_of_int lod)
          (bindE (lerp_t img u0 (lod_in - real_of_int lod)) (\<lambda>l. upscale2d l (py_pow2 lod)))
          (Inr pl))"
  using assms by (subst G_grow.simps) (simp add: Let_def cset_def)

lemma upscale2d_pow2_T4:
  "is_T4 t \<Longrightarrow> \<exists>u. upscale2d t (py_pow2 (int n)) = Inr u \<and> is_T4 u"
proof -
  assume "is_T4 t"
  then obtain xs where "t = T4 xs" by (auto simp: is_T4_iff)
  moreover have "(1::int) \<le> 2 ^ n" by (rule one_le_power) simp
  ultimately show ?thesis using upscale2d_T4[of "2 ^ n" xs] by (auto simp: py_pow2_nat)
qed

lemma upscale2d_two_T4:
  "is_T4 t \<Longrightarrow> \<exists>u. upscale2d t (PyInt 2) = Inr u \<and> is_T4 u"
  using upscale2d_T4[of 2] by (auto simp: is_T4_iff)

lemma torgb_Inr_T4: "is_T4 x \<Longrightarrow> torgb c st res_log2 x res = Inr t \<Longrightarrow> is_T4 t"
  using torgb_T4[of x c st res_log2 res] by auto

lemma upscale2d_one [simp]: "upscale2d t (py_pow2 0) = Inr t"
  by (simp add: py_pow2_def upscale2d_def)

lemma py_pow2_one [simp]: "py_pow2 1 = PyInt 2"
  by (simp add: py_pow2_def)

lemma G_agree_level:
  assumes x: "is_T4 x" and res: "first_log2 < res" and n: "int res_log2 - int res = int n"
    and t0: "torgb c st res_log2 x (res - 1) = Inr t0" and out: "same_shape out t0"
    and deeper: "\<And>y img o'. n > 0 \<Longrightarrow> is_T4 y \<Longrightarrow> torgb c st res_log2 y res = Inr img \<Longrightarrow>
        same_shape o' img \<Longrightarrow> G_agree c st first_log2 res_log2 lod_in (n - 1) (res + 1) y o' img"
  shows "G_agree c st first_log2 res_log2 lod_in n res x out t0"
proof -
  obtain y where y: "G_block c st first_log2 x res = Inr y" "is_T4 y"
    using G_block_T4[OF x] res by (metis less_irrefl)
  obtain img where img: "torgb c st res_log2 y res = Inr img" "is_T4 img"
    using torgb_T4[OF y(2)] by blast
  have t0T: "is_T4 t0" using torgb_Inr_T4[OF x t0] .
  have outT: "is_T4 out" using same_shape_is_T4[OF out] t0T by simp
  obtain uo where uo: "upscale2d out (PyInt 2) = Inr uo" "is_T4 uo"
    using upscale2d_two_T4[OF outT] by blast
  obtain u0 where u0: "upscale2d t0 (PyInt 2) = Inr u0" "is_T4 u0"
    using upscale2d_two_T4[OF t0T] by blast
  have uu: "same_shape uo u0" using same_shape_upscale2d[OF out uo(1) u0(1)] .
  obtain pl where pl: "upscale2d img (py_pow2 (int n)) = Inr pl"
    using upscale2d_pow2_T4[OF img(2)] by blast
  have le: "res \<le> res_log2" using n by linarith
  then have upt: "[res ..< res_log2 + 1] = res # [res + 1 ..< res_log2 + 1]"
    by (simp add: upt_conv_Cons)
  let ?w = "lod_in - real n"
  let ?rest = "\<lambda>o'. G_linear_rest c st first_log2 res_log2 lod_in [res + 1 ..< res_log2 + 1] (y, o')"
  let ?deep = "G_grow c st first_log2 res_log2 lod_in y (res + 1) (int n - 1)"
  let ?blend = "bindE (lerp_t img u0 ?w) (\<lambda>l. upscale2d l (py_pow2 (int n)))"
  have lin: "G_linear_rest c st first_log2 res_log2 lod_in [res ..< res_log2 + 1] (x, out)
           = bindE (lerp_clip_t img uo ?w) ?rest"
    unfolding upt using G_linear_rest_Cons[OF y(1) img(1) uo(1)] n by simp
  have grow: "G_grow c st first_log2 res_log2 lod_in x res (int n) =
      (if n > 0 then tf_cond (lod_in < real n) ?deep (tf_cond (lod_in > real n) ?blend (Inr pl))
       else tf_cond (lod_in > real n) ?blend (Inr pl))"
    using G_grow_unfold[OF y(1) img(1) pl res t0 u0(1)] by simp
  show ?thesis
  proof (cases "same_shape img uo")
    case False
    then have ne: "\<not> same_shape img u0"
      using uu same_shape_trans same_shape_sym by blast
    have l1: "lerp_clip_t img uo ?w = Inl ValueError"
      using lerp_clip_t_outcome[of img uo ?w] False by auto
    have l2: "lerp_t img u0 ?w = Inl ValueError"
      using lerp_t_outcome[of img u0 ?w] ne by auto
    have lin': "G_linear_rest c st first_log2 res_log2 lod_in [res ..< res_log2 + 1] (x, out) = Inl ValueError"
      unfolding lin l1 by simp
    have grow': "G_grow c st first_log2 res_log2 lod_in x res (int n) = Inl ValueError"
    proof (cases "n > 0")
      case False
      then show ?thesis unfolding grow l2 by simp
    next
      case True
      have "same_shape img img" by simp
      from deeper[OF True y(2) img(1) this]
      have "?deep = Inl ValueError \<or> (\<exists>r. ?deep = Inr r)"
        using True by (auto simp: G_agree_def of_nat_diff)
      then show ?thesis unfolding grow l2 using True by auto
    qed
    show ?thesis unfolding G_agree_def using lin' grow' by simp
  next
    case True
    then have s0: "same_shape img u0" using uu same_shape_trans by blast
    obtain o' where o': "lerp_clip_t img uo ?w = Inr o'" "same_shape o' img"
      using lerp_clip_t_outcome[of img uo ?w] True by auto
    obtain l where l: "lerp_t img u0 ?w = Inr l" "same_shape l img"
      using lerp_t_outcome[of img u0 ?w] s0 by auto
    have lT: "is_T4 l" using same_shape_is_T4[OF l(2)] img(2) by simp
    obtain bl where bl: "upscale2d l (py_pow2 (int n)) = Inr bl"
      using upscale2d_pow2_T4[OF lT] by blast
    have lin': "G_linear_rest c st first_log2 res_log2 lod_in [res ..< res_log2 + 1] (x, out) = ?rest o'"
      unfolding lin o'(1) by simp
    have inner: "tf_cond (lod_in > real n) ?blend (Inr pl) = Inr (if lod_in > real n then bl else pl)"
      unfolding l(1) by (simp add: bl)
    \<comment> \<open>what the clipped blend is, by the position of \<open>lod_in\<close>\<close>
    have low: "o' = img" if "lod_in \<le> real n"
      using lerp_clip_t_low[of ?w img uo] True that o'(1) by simp
    have mid: "o' = l" if "real n \<le> lod_in" "lod_in \<le> real n + 1" "out = t0"
    proof -
      from that(3) uo(1) u0(1) have "uo = u0" by simp
      then show ?thesis using lerp_clip_t_mid[of ?w img u0] that(1,2) o'(1) l(1) by simp
    qed
    have high: "o' = uo" if "real n + 1 \<le> lod_in"
      using lerp_clip_t_high[of ?w img uo] True that o'(1) by simp
    show ?thesis
    proof (cases "n > 0")
      case False
      then have n0: "n = 0" by simp
      then have "res = res_log2" using n by simp
      then have rest: "?rest o' = Inr o'" by simp
      have blv: "bl = l" and plv: "pl = img" using bl pl n0 by simp_all
      have g: "G_grow c st first_log2 res_log2 lod_in x res (int n) = Inr (if lod_in > 0 then l else img)"
        unfolding grow inner using n0 blv plv by simp
      have a: "(if lod_in > 0 then l else img) = o'" if "lod_in < real n + 1" "out = t0"
        using that low mid n0 by (cases "lod_in > 0") auto
      have b: "upscale2d out (py_pow2 (int n + 1)) = Inr o'" if "real n + 1 \<le> lod_in"
        using high[OF that] uo(1) n0 by simp
      show ?thesis unfolding G_agree_def lin' rest g using a b by auto
    next
      case pos: True
      have n1: "int (n - 1) = int n - 1" using pos by simp
      have ih: "G_agree c st first_log2 res_log2 lod_in (n - 1) (res + 1) y o' img"
        using deeper[OF pos y(2) img(1) o'(2)] .
      from ih consider
          (fail) "?rest o' = Inl ValueError" "?deep = Inl ValueError"
        | (ok) v r where "?rest o' = Inr v" "?deep = Inr r"
            "lod_in < real n \<longrightarrow> o' = img \<longrightarrow> r = v"
            "real n \<le> lod_in \<longrightarrow> upscale2d o' (py_pow2 (int n)) = Inr v"
        unfolding G_agree_def n1 using pos by (auto simp: of_nat_diff)
      then show ?thesis
      proof cases
        case fail
        then show ?thesis unfolding G_agree_def lin' grow using pos by simp
      next
        case ok
        have g: "G_grow c st first_log2 res_log2 lod_in x res (int n)
               = Inr (if lod_in < real n then r else if lod_in > real n then bl else pl)"
          unfolding grow inner ok(2) using pos by simp
        have a: "(if lod_in < real n then r else if lod_in > real n then bl else pl) = v"
          if "lod_in < real n + 1" "out = t0"
        proof (cases "lod_in < real n")
          case True
          then show ?thesis using ok(3) low by simp
        next
          case False
          then have ge: "real n \<le> lod_in" by simp
          then have v: "upscale2d o' (py_pow2 (int n)) = Inr v" using ok(4) by simp
          show ?thesis
          proof (cases "lod_in > real n")
            case True
            then have "o' = l" using mid that by simp
            then show ?thesis using v bl True by simp
          next
            case False
            then have "o' = img" using low by simp
            then show ?thesis using v pl False ge by simp
          qed
        qed
        have b: "upscale2d out (py_pow2 (int n + 1)) = Inr v" if "real n + 1 \<le> lod_in"
        proof -
          have "o' = uo" using high[OF that] .
          moreover have "upscale2d o' (py_pow2 (int n)) = Inr v" using ok(4) that by simp
          moreover obtain xs where "out = T4 xs" using outT by (auto simp: is_T4_iff)
          ultimately show ?thesis using upscale2d_twice[of xs uo n] uo(1) by simp
        qed
        show ?thesis unfolding G_agree_def lin' ok(1) g using a b by auto
      qed
    qed
  qed
qed

lemma G_agree_all:
  "is_T4 x \<Longrightarrow> first_log2 < res \<Longrightarrow> int res_log2 - int res = int n \<Longrightarrow>
   torgb c st res_log2 x (res - 1) = Inr t0 \<Longrightarrow> same_shape out t0 \<Longrightarrow>
   G_agree c st first_log2 res_log2 lod_in n res x out t0"
proof (induction n arbitrary: res x out t0)
  case 0
  show ?case by (rule G_agree_level[OF "0.prems"]) simp
next
  case (Suc n)
  show ?case
  proof (rule G_agree_level[OF Suc.prems])
    fix y img o'
    assume a: "is_T4 y" "torgb c st res_log2 y res = Inr img" "same_shape o' img"
    have b: "first_log2 < res + 1" "int res_log2 - int (res + 1) = int n"
      using Suc.prems(2,3) by simp_all
    have c: "torgb c st res_log2 y (res + 1 - 1) = Inr img" using a(2) by simp
    from Suc.IH[OF a(1) b c a(3)]
    show "G_agree c st first_log2 res_log2 lod_in (Suc n - 1) (res + 1) y o' img" by simp
  qed
qed


lemma G_linear_eq_G_grow:
  assumes le: "first_log2 \<le> res_log2"
  shows "G_linear c st first_log2 res_log2 lod_in combo_in =
         G_grow c st first_log2 res_log2 lod_in combo_in first_log2 (int res_log2 - int first_log2)"
proof (cases "G_block c st first_log2 combo_in first_log2")
  case (Inl e)
  then show ?thesis by (subst G_grow.simps) (simp add: G_linear_def)
next
  case (Inr y)
  then have yT: "is_T4 y" by (rule G_block_first_T4)
  obtain t0 where t0: "torgb c st res_log2 y first_log2 = Inr t0" "is_T4 t0"
    using torgb_T4[OF yT] by blast
  define L where "L = res_log2 - first_log2"
  have L: "int res_log2 - int first_log2 = int L" using le by (simp add: L_def)
  obtain p0 where p0: "upscale2d t0 (py_pow2 (int L)) = Inr p0"
    using upscale2d_pow2_T4[OF t0(2)] by blast
  have p00: "L = 0 \<Longrightarrow> p0 = t0" using p0 by auto
  have lin: "G_linear c st first_log2 res_log2 lod_in combo_in =
      G_linear_rest c st first_log2 res_log2 lod_in [first_log2 + 1 ..< res_log2 + 1] (y, t0)"
    using Inr t0(1) by (simp add: G_linear_def G_linear_rest_def)
  have grow: "G_grow c st first_log2 res_log2 lod_in combo_in first_log2 (int L) =
      (if L > 0 then tf_cond (lod_in < real L)
                       (G_grow c st first_log2 res_log2 lod_in y (first_log2 + 1) (int L - 1)) (Inr p0)
       else Inr p0)"
    using Inr t0(1) p0 p00 by (subst G_grow.simps) (auto simp add: Let_def cset_def)
  show ?thesis
  proof (cases "L > 0")
    case False
    then have "L = 0" by simp
    moreover from this have "res_log2 = first_log2" using le by (simp add: L_def)
    ultimately show ?thesis unfolding L lin grow using p0 by simp
  next
    case True
    have n: "int res_log2 - int (first_log2 + 1) = int (L - 1)" using True by (simp add: L_def)
    have t: "torgb c st res_log2 y (first_log2 + 1 - 1) = Inr t0" using t0(1) by simp
    have ag: "G_agree c st first_log2 res_log2 lod_in (L - 1) (first_log2 + 1) y t0 t0"
      by (rule G_agree_all[OF yT _ n t]) simp_all
    have L1: "int (L - 1) = int L - 1" "int (L - 1) + 1 = int L" "real (L - 1) + 1 = real L"
      using True by (simp_all add: of_nat_diff)
    from ag consider
        (fail) "G_linear_rest c st first_log2 res_log2 lod_in [first_log2 + 1 ..< res_log2 + 1] (y, t0)
                  = Inl ValueError"
               "G_grow c st first_log2 res_log2 lod_in y (first_log2 + 1) (int L - 1) = Inl ValueError"
      | (ok) v r where
          "G_linear_rest c st first_log2 res_log2 lod_in [first_log2 + 1 ..< res_log2 + 1] (y, t0) = Inr v"
          "G_grow c st first_log2 res_log2 lod_in y (first_log2 + 1) (int L - 1) = Inr r"
          "lod_in < real L \<longrightarrow> r = v"
          "real L \<le> lod_in \<longrightarrow> upscale2d t0 (py_pow2 (int L)) = Inr v"
      unfolding G_agree_def L1 by auto
    then show ?thesis
    proof cases
      case fail
      then show ?thesis unfolding L lin grow using True by simp
    next
      case ok
      then show ?thesis unfolding L lin grow using True p0 by (cases "lod_in < real L") auto
    qed
  qed
qed


section \<open>Repeated downscaling\<close>

text \<open>Average pooling of one sample [channel, height, width].\<close>

definition pool_sample :: "nat \<Rightarrow> t3 \<Rightarrow> t3" where
  "pool_sample f xn =
     map (\<lambda>p. map (\<lambda>i. map (\<lambda>j.
       (\<Sum>a\<leftarrow>[0..<f]. \<Sum>b\<leftarrow>[0..<f]. at2 p (int (i * f + a)) (int (j * f + b))) / real (f * f))
       [0..<width xn div f]) [0..<height xn div f]) xn"

lemma tf_nn_avg_pool_T4: "tf_nn_avg_pool (T4 xs) f = Inr (T4 (map (pool_sample f) xs))"
  by (simp add: tf_nn_avg_pool_def pool_sample_def)

lemma sum_list_upt_double:
  "(\<Sum>A\<leftarrow>[0..<2 * f]. K A) = (\<Sum>a\<leftarrow>[0..<f]. K a) + (\<Sum>a\<leftarrow>[0..<f]. (K (f + a) :: real))"
proof -
  have a: "[0..<2 * f] = [0..<f] @ [f..<f + f]"
    using upt_add_eq_append[of 0 f f] by (simp add: mult_2)
  have "[f..<f + f] = map (\<lambda>i. i + f) [0..<f]" by (rule map_add_upt[symmetric])
  then have b: "map K [f..<f + f] = map (\<lambda>a. K (f + a)) [0..<f]"
    by (simp only: map_map comp_def add.commute)
  show ?thesis unfolding a by (simp add: b)
qed

lemma at2_tabulate:
  "i < H \<Longrightarrow> j < W \<Longrightarrow>
     at2 (map (\<lambda>i. map (\<lambda>j. F i j) [0..<W]) [0..<H]) (int i) (int j) = F i j"
  by (simp add: at2_def)

lemma height_pool_sample: "height (pool_sample f xn) = (if xn = [] then 0 else height xn div f)"
  by (cases xn) (simp_all add: height_def pool_sample_def)

lemma width_pool_sample:
  "0 < height xn div f \<Longrightarrow> width (pool_sample f xn) = width xn div f"
  by (cases xn) (auto simp: width_def height_def pool_sample_def upt_conv_Cons split: list.splits)

lemma pool_elem_twice:
  assumes f: "0 < f" and i: "i * 2 + 1 < H" and j: "j * 2 + 1 < W"
  shows "(\<Sum>a\<leftarrow>[0..<2]. \<Sum>b\<leftarrow>[0..<2].
            at2 (map (\<lambda>i. map (\<lambda>j.
                  (\<Sum>a\<leftarrow>[0..<f]. \<Sum>b\<leftarrow>[0..<f]. at2 p (int (i * f + a)) (int (j * f + b))) / real (f * f))
                  [0..<W]) [0..<H]) (int (i * 2 + a)) (int (j * 2 + b))) / real (2 * 2)
       = (\<Sum>a\<leftarrow>[0..<2 * f]. \<Sum>b\<leftarrow>[0..<2 * f].
            at2 p (int (i * (2 * f) + a)) (int (j * (2 * f) + b))) / real (2 * f * (2 * f))"
proof -
  define S where "S a0 b0 = (\<Sum>a\<leftarrow>[0..<f]. \<Sum>b\<leftarrow>[0..<f].
      at2 p (int (i * (2 * f) + (a0 + a))) (int (j * (2 * f) + (b0 + b))))" for a0 b0
  define P where "P = map (\<lambda>i. map (\<lambda>j.
      (\<Sum>a\<leftarrow>[0..<f]. \<Sum>b\<leftarrow>[0..<f]. at2 p (int (i * f + a)) (int (j * f + b))) / real (f * f))
      [0..<W]) [0..<H]"
  have rd: "at2 P (int (i * 2 + a)) (int (j * 2 + b)) = S (a * f) (b * f) / real (f * f)"
    if "a < 2" "b < 2" for a b
  proof -
    have "i * 2 + a < H" "j * 2 + b < W" using that i j by simp_all
    then have "at2 P (int (i * 2 + a)) (int (j * 2 + b))
        = (\<Sum>a'\<leftarrow>[0..<f]. \<Sum>b'\<leftarrow>[0..<f].
             at2 p (int ((i * 2 + a) * f + a')) (int ((j * 2 + b) * f + b'))) / real (f * f)"
      unfolding P_def by (rule at2_tabulate)
    also have "\<dots> = S (a * f) (b * f) / real (f * f)"
      unfolding S_def by (simp add: algebra_simps)
    finally show ?thesis .
  qed
  have u: "[0..<2] = [0, Suc 0]" by (simp add: upt_conv_Cons)
  have lhs: "(\<Sum>a\<leftarrow>[0..<2]. \<Sum>b\<leftarrow>[0..<2]. at2 P (int (i * 2 + a)) (int (j * 2 + b)))
      = (S 0 0 + S 0 f + S f 0 + S f f) / real (f * f)"
  proof -
    have "at2 P (int (i * 2 + 0)) (int (j * 2 + 0)) = S 0 0 / real (f * f)"
      "at2 P (int (i * 2 + 0)) (int (j * 2 + 1)) = S 0 f / real (f * f)"
      "at2 P (int (i * 2 + 1)) (int (j * 2 + 0)) = S f 0 / real (f * f)"
      "at2 P (int (i * 2 + 1)) (int (j * 2 + 1)) = S f f / real (f * f)"
      using rd[of 0 0] rd[of 0 1] rd[of 1 0] rd[of 1 1] by simp_all
    then show ?thesis unfolding u by (simp add: add_divide_distrib ac_simps)
  qed
  have rhs: "(\<Sum>a\<leftarrow>[0..<2 * f]. \<Sum>b\<leftarrow>[0..<2 * f].
            at2 p (int (i * (2 * f) + a)) (int (j * (2 * f) + b)))
      = S 0 0 + S 0 f + S f 0 + S f f"
    unfolding S_def
    by (simp only: sum_list_upt_double[where f = f] sum_list_addf add_0 add.assoc)
  show ?thesis
    unfolding P_def[symmetric] lhs rhs using f by (simp add: field_simps)
qed

lemma pool_sample_twice:
  assumes f: "0 < f"
  shows "pool_sample 2 (pool_sample f xn) = pool_sample (2 * f) xn"
proof (cases "xn = []")
  case True
  then show ?thesis by (simp add: pool_sample_def)
next
  case False
  have h: "height (pool_sample f xn) div 2 = height xn div (2 * f)"
    using False by (simp add: height_pool_sample div_mult2_eq mult.commute)
  show ?thesis
  proof (cases "height xn div (2 * f) = 0")
    case True
    then show ?thesis unfolding pool_sample_def[of 2] h
      by (simp add: pool_sample_def)
  next
    case nz: False
    have "height xn div (2 * f) = height xn div f div 2"
      by (simp add: mult.commute[of 2 f] div_mult2_eq)
    with nz have pos: "0 < height xn div f"
      by (cases "height xn div f = 0") simp_all
    have w: "width (pool_sample f xn) div 2 = width xn div (2 * f)"
      by (simp add: width_pool_sample[OF pos] div_mult2_eq mult.commute)
    have "map (\<lambda>i. map (\<lambda>j.
             (\<Sum>a\<leftarrow>[0..<2]. \<Sum>b\<leftarrow>[0..<2].
                at2 (map (\<lambda>i. map (\<lambda>j.
                  (\<Sum>a\<leftarrow>[0..<f]. \<Sum>b\<leftarrow>[0..<f]. at2 p (int (i * f + a)) (int (j * f + b))) / real (f * f))
                  [0..<width xn div f]) [0..<height xn div f]) (int (i * 2 + a)) (int (j * 2 + b))) / real (2 * 2))
             [0..<width xn div (2 * f)]) [0..<height xn div (2 * f)]
        = map (\<lambda>i. map (\<lambda>j.
             (\<Sum>a\<leftarrow>[0..<2 * f]. \<Sum>b\<leftarrow>[0..<2 * f].
                at2 p (int (i * (2 * f) + a)) (int (j * (2 * f) + b))) / real (2 * f * (2 * f)))
             [0..<width xn div (2 * f)]) [0..<height xn div (2 * f)]" for p
    proof (intro map_cong refl)
      fix i j
      assume "i \<in> set [0..<height xn div (2 * f)]" "j \<in> set [0..<width xn div (2 * f)]"
      then have "i < height xn div f div 2" "j < width xn div f div 2"
        by (simp_all add: div_mult2_eq mult.commute)
      then have "i * 2 + 1 < height xn div f" "j * 2 + 1 < width xn div f" by linarith+
      from pool_elem_twice[OF f this]
      show "(\<Sum>a\<leftarrow>[0..<2]. \<Sum>b\<leftarrow>[0..<2].
                at2 (map (\<lambda>i. map (\<lambda>j.
                  (\<Sum>a\<leftarrow>[0..<f]. \<Sum>b\<leftarrow>[0..<f]. at2 p (int (i * f + a)) (int (j * f + b))) / real (f * f))
                  [0..<width xn div f]) [0..<height xn div f]) (int (i * 2 + a)) (int (j * 2 + b))) / real (2 * 2)
          = (\<Sum>a\<leftarrow>[0..<2 * f]. \<Sum>b\<leftarrow>[0..<2 * f].
                at2 p (int (i * (2 * f) + a)) (int (j * (2 * f) + b))) / real (2 * f * (2 * f))" .
    qed
    then show ?thesis
      unfolding pool_sample_def[of 2] h w
      by (simp add: pool_sample_def comp_def)
  qed
qed


lemma downscale2d_one [simp]: "downscale2d t (py_pow2 0) = Inr t"
  by (simp add: py_pow2_def downscale2d_def)

lemma bindE_Inr [simp]: "bindE m Inr = m"
  by (cases m) simp_all

lemma downscale2d_twice:
  assumes "downscale2d (T4 xs) (py_pow2 (int m)) = Inr img"
  shows "downscale2d img (PyInt 2) = downscale2d (T4 xs) (py_pow2 (int m + 1))"
proof (cases m)
  case 0
  with assms show ?thesis by simp
next
  case (Suc k)
  have p1: "py_pow2 (int m) = PyInt (2 ^ m)" by (rule py_pow2_nat)
  have p2: "py_pow2 (int m + 1) = PyInt (2 ^ Suc m)"
    using py_pow2_nat[of "Suc m"] by (simp add: add.commute)
  have g1: "(1::int) \<le> 2 ^ m" by (rule one_le_power) simp
  have g2: "(1::int) \<le> 2 ^ Suc m" by (rule one_le_power) simp
  have "(1::int) \<le> 2 ^ k" by (rule one_le_power) simp
  then have "2 * 2 ^ k \<noteq> (1::int)" by linarith
  then have ne1: "(2::int) ^ m \<noteq> 1" unfolding Suc by simp
  have "2 * 2 ^ m \<noteq> (1::int)" using g1 by linarith
  then have ne2: "(2::int) ^ Suc m \<noteq> 1" by simp
  have n1: "nat ((2::int) ^ m) = 2 ^ m" and n2: "nat ((2::int) ^ Suc m) = 2 * 2 ^ m"
    by (simp_all add: nat_power_eq nat_mult_distrib)
  have a: "downscale2d (T4 xs) (PyInt (2 ^ m)) = Inr (T4 (map (pool_sample (2 ^ m)) xs))"
    using g1 ne1 by (simp add: downscale2d_def tf_nn_avg_pool_T4 n1)
  have b: "downscale2d (T4 xs) (PyInt (2 ^ Suc m)) = Inr (T4 (map (pool_sample (2 * 2 ^ m)) xs))"
    using g2 ne2 by (simp add: downscale2d_def tf_nn_avg_pool_T4 n2 del: power_Suc)
  from assms a have img: "img = T4 (map (pool_sample (2 ^ m)) xs)" unfolding p1 by simp
  have "downscale2d img (PyInt 2) = Inr (T4 (map (pool_sample 2) (map (pool_sample (2 ^ m)) xs)))"
    unfolding img by (simp add: downscale2d_def tf_nn_avg_pool_T4)
  also have "map (pool_sample 2) (map (pool_sample (2 ^ m)) xs) = map (pool_sample (2 * 2 ^ m)) xs"
    by (simp add: pool_sample_twice comp_def)
  finally show ?thesis unfolding p2 b .
qed

lemma downscale2d_pow2_T4:
  "is_T4 t \<Longrightarrow> \<exists>u. downscale2d t (py_pow2 (int n)) = Inr u \<and> is_T4 u"
proof -
  assume "is_T4 t"
  then obtain xs where "t = T4 xs" by (auto simp: is_T4_iff)
  moreover have "(1::int) \<le> 2 ^ n" by (rule one_le_power) simp
  ultimately show ?thesis using downscale2d_T4[of "2 ^ n" xs] by (auto simp: py_pow2_nat)
qed

lemma fromrgb_Inr_T4: "is_T4 x \<Longrightarrow> fromrgb c st res_log2 x res = Inr t \<Longrightarrow> is_T4 t"
  using fromrgb_T4[of x c st res_log2 res] by auto

section \<open>The two structures of the discriminator agree\<close>

lemma bindE_assoc: "bindE (bindE m f) g = bindE m (\<lambda>x. bindE (f x) g)"
  by (cases m) simp_all

lemma D_linear_loop_append:
  "D_linear_loop c st first_log2 res_log2 lod_in (rs @ rs') s =
     bindE (D_linear_loop c st first_log2 res_log2 lod_in rs s)
       (\<lambda>s'. D_linear_loop c st first_log2 res_log2 lod_in rs' s')"
proof (induction rs arbitrary: s)
  case Nil
  then show ?case by (cases s) simp
next
  case (Cons r rs)
  obtain img x where s: "s = (img, x)" by (cases s)
  show ?case unfolding s by (simp add: Let_def bindE_assoc Cons.IH)
qed

text \<open>The state of the loop of the linear structure when it is about to handle \<open>res\<close>.\<close>

definition D_state ::
  "config \<Rightarrow> store \<Rightarrow> nat \<Rightarrow> nat \<Rightarrow> real \<Rightarrow> tensor \<Rightarrow> nat \<Rightarrow> (tensor \<times> tensor) result" where
  "D_state c st first_log2 res_log2 lod_in images_in res =
     bindE (fromrgb c st res_log2 images_in res_log2) (\<lambda>x.
     D_linear_loop c st first_log2 res_log2 lod_in (rev [res + 1 ..< res_log2 + 1]) (images_in, x))"

text \<open>The input of the block of \<open>grow(res, lod)\<close>: the value of its first \<open>x()\<close>.\<close>

definition D_grow_input ::
  "config \<Rightarrow> store \<Rightarrow> nat \<Rightarrow> nat \<Rightarrow> real \<Rightarrow> tensor \<Rightarrow> nat \<Rightarrow> int \<Rightarrow> tensor result" where
  "D_grow_input c st first_log2 res_log2 lod_in images_in res lod =
     (if lod > 0 then
        cset (bindE (downscale2d images_in (py_pow2 lod)) (\<lambda>d. fromrgb c st res_log2 d res))
          (lod_in < real_of_int lod)
          (D_grow c st first_log2 res_log2 lod_in images_in (res + 1) (lod - 1))
      else bindE (downscale2d images_in (py_pow2 lod)) (\<lambda>d. fromrgb c st res_log2 d res))"

lemma D_grow_unfold:
  "D_grow c st first_log2 res_log2 lod_in images_in res lod =
     bindE (D_grow_input c st first_log2 res_log2 lod_in images_in res lod) (\<lambda>x0.
     bindE (D_block c st first_log2 x0 res) (\<lambda>x.
     if res > first_log2 then
       cset (Inr x) (lod_in > real_of_int lod)
         (bindE (downscale2d images_in (py_pow2 (lod + 1))) (\<lambda>d.
          bindE (fromrgb c st res_log2 d (res - 1)) (\<lambda>y.
          lerp_t x y (lod_in - real_of_int lod))))
     else Inr x))"
  by (subst D_grow.simps) (simp add: D_grow_input_def Let_def)

definition D_agree ::
  "config \<Rightarrow> store \<Rightarrow> nat \<Rightarrow> nat \<Rightarrow> real \<Rightarrow> tensor \<Rightarrow> nat \<Rightarrow> nat \<Rightarrow> bool" where
  "D_agree c st first_log2 res_log2 lod_in images_in n res \<longleftrightarrow>
     (D_state c st first_log2 res_log2 lod_in images_in res = Inl ValueError \<and>
      D_grow_input c st first_log2 res_log2 lod_in images_in res (int n) = Inl ValueError) \<or>
     (\<exists>img x. D_state c st first_log2 res_log2 lod_in images_in res = Inr (img, x) \<and>
              D_grow_input c st first_log2 res_log2 lod_in images_in res (int n) = Inr x \<and>
              downscale2d images_in (py_pow2 (int n)) = Inr img \<and> is_T4 x)"

lemma D_agree_all:
  "is_T4 images_in \<Longrightarrow> first_log2 \<le> res \<Longrightarrow> int res_log2 - int res = int n \<Longrightarrow>
     D_agree c st first_log2 res_log2 lod_in images_in n res"
proof (induction n arbitrary: res)
  case 0
  then have r: "res = res_log2" by simp
  obtain X where X: "fromrgb c st res_log2 images_in res_log2 = Inr X" "is_T4 X"
    using fromrgb_T4[OF "0.prems"(1)] by blast
  have "D_state c st first_log2 res_log2 lod_in images_in res = Inr (images_in, X)"
    unfolding r by (simp add: D_state_def X)
  moreover have "D_grow_input c st first_log2 res_log2 lod_in images_in res (int 0) = Inr X"
    unfolding r by (simp add: D_grow_input_def X)
  ultimately show ?case unfolding D_agree_def using X(2) by simp
next
  case (Suc m)
  obtain xs where xs: "images_in = T4 xs" using Suc.prems(1) by (auto simp: is_T4_iff)
  have le: "res + 1 \<le> res_log2" using Suc.prems(3) by linarith
  have m: "int res_log2 - int (res + 1) = int m" using Suc.prems(3) by simp
  have ih: "D_agree c st first_log2 res_log2 lod_in images_in m (res + 1)"
    by (rule Suc.IH[OF Suc.prems(1) _ m]) (use Suc.prems(2) in simp)
  let ?w = "lod_in - real m"
  obtain dn where dn: "downscale2d images_in (py_pow2 (int (Suc m))) = Inr dn" "is_T4 dn"
    using downscale2d_pow2_T4[OF Suc.prems(1)] by blast
  obtain Y where Y: "fromrgb c st res_log2 dn res = Inr Y" "is_T4 Y"
    using fromrgb_T4[OF dn(2)] by blast
  have dn': "downscale2d images_in (py_pow2 (int m + 1)) = Inr dn"
    using dn(1) by (simp add: add.commute)
  have upt: "rev [res + 1 ..< res_log2 + 1] = rev [res + 1 + 1 ..< res_log2 + 1] @ [res + 1]"
    using le by (simp add: upt_conv_Cons)
  have st: "D_state c st first_log2 res_log2 lod_in images_in res =
      bindE (D_state c st first_log2 res_log2 lod_in images_in (res + 1))
        (\<lambda>s. D_linear_loop c st first_log2 res_log2 lod_in [res + 1] s)"
    unfolding D_state_def upt D_linear_loop_append bindE_assoc ..
  have inp: "D_grow_input c st first_log2 res_log2 lod_in images_in res (int (Suc m)) =
      tf_cond (lod_in < real (Suc m))
        (D_grow c st first_log2 res_log2 lod_in images_in (res + 1) (int m)) (Inr Y)"
    using dn(1) Y(1) by (simp add: D_grow_input_def cset_def)
  from ih consider
      (fail) "D_state c st first_log2 res_log2 lod_in images_in (res + 1) = Inl ValueError"
             "D_grow_input c st first_log2 res_log2 lod_in images_in (res + 1) (int m) = Inl ValueError"
    | (ok) img X where "D_state c st first_log2 res_log2 lod_in images_in (res + 1) = Inr (img, X)"
             "D_grow_input c st first_log2 res_log2 lod_in images_in (res + 1) (int m) = Inr X"
             "downscale2d images_in (py_pow2 (int m)) = Inr img" "is_T4 X"
    unfolding D_agree_def by auto
  then show ?case
  proof cases
    case fail
    have "D_grow c st first_log2 res_log2 lod_in images_in (res + 1) (int m) = Inl ValueError"
      using fail(2) by (subst D_grow_unfold) simp
    then show ?thesis unfolding D_agree_def st inp fail(1) by simp
  next
    case ok
    obtain x' where x': "D_block c st first_log2 X (res + 1) = Inr x'" "is_T4 x'"
      using D_block_T4[OF ok(4), of first_log2 "res + 1"] Suc.prems(2) by auto
    have d2: "downscale2d img (PyInt 2) = Inr dn"
      using downscale2d_twice[of xs m img] ok(3) dn' xs by simp
    have step: "D_linear_loop c st first_log2 res_log2 lod_in [res + 1] (img, X) =
        bindE (lerp_clip_t x' Y ?w) (\<lambda>x''. Inr (dn, x''))"
      using x'(1) d2 Y(1) m by (simp add: Let_def)
    have grow: "D_grow c st first_log2 res_log2 lod_in images_in (res + 1) (int m) =
        tf_cond (lod_in > real m) (lerp_t x' Y ?w) (Inr x')"
      using Suc.prems(2) x'(1) dn' Y(1) ok(2)
      by (subst D_grow_unfold) (simp add: cset_def)
    have sd: "D_state c st first_log2 res_log2 lod_in images_in res =
        bindE (lerp_clip_t x' Y ?w) (\<lambda>x''. Inr (dn, x''))"
      unfolding st ok(1) bindE_simps(2) step ..
    show ?thesis
    proof (cases "same_shape x' Y")
      case False
      have "lerp_clip_t x' Y ?w = Inl ValueError" "lerp_t x' Y ?w = Inl ValueError"
        using lerp_clip_t_outcome[of x' Y ?w] lerp_t_outcome[of x' Y ?w] False by auto
      then show ?thesis unfolding D_agree_def sd inp grow by simp
    next
      case True
      obtain o' where o': "lerp_clip_t x' Y ?w = Inr o'" "same_shape o' x'"
        using lerp_clip_t_outcome[of x' Y ?w] True by auto
      obtain l where l: "lerp_t x' Y ?w = Inr l"
        using lerp_t_outcome[of x' Y ?w] True by auto
      have oT: "is_T4 o'" using same_shape_is_T4[OF o'(2)] x'(2) by simp
      have val: "(if lod_in < real (Suc m) then (if lod_in > real m then l else x') else Y) = o'"
      proof (cases "lod_in < real (Suc m)")
        case lt: True
        show ?thesis
        proof (cases "lod_in > real m")
          case True
          then have "lerp_clip_t x' Y ?w = lerp_t x' Y ?w"
            using lt by (intro lerp_clip_t_mid) simp_all
          then show ?thesis using o'(1) l lt True by simp
        next
          case False
          then have "lerp_clip_t x' Y ?w = Inr x'"
            using \<open>same_shape x' Y\<close> by (intro lerp_clip_t_low) simp_all
          then show ?thesis using o'(1) lt False by simp
        qed
      next
        case False
        then have "lerp_clip_t x' Y ?w = Inr Y"
          using \<open>same_shape x' Y\<close> by (intro lerp_clip_t_high) simp_all
        then show ?thesis using o'(1) False by simp
      qed
      have s: "D_state c st first_log2 res_log2 lod_in images_in res = Inr (dn, o')"
        unfolding sd o'(1) by simp
      have g: "D_grow_input c st first_log2 res_log2 lod_in images_in res (int (Suc m)) = Inr o'"
        unfolding inp grow l using val by simp
      show ?thesis unfolding D_agree_def using s g dn(1) oT by simp
    qed
  qed
qed

lemma D_linear_eq_D_grow:
  assumes "is_T4 images_in" "first_log2 \<le> res_log2"
  shows "D_linear c st first_log2 res_log2 lod_in images_in =
         D_grow c st first_log2 res_log2 lod_in images_in first_log2 (int res_log2 - int first_log2)"
proof -
  define L where "L = res_log2 - first_log2"
  have L: "int res_log2 - int first_log2 = int L" using assms(2) by (simp add: L_def)
  have ag: "D_agree c st first_log2 res_log2 lod_in images_in L first_log2"
    by (rule D_agree_all[OF assms(1) _ L]) simp
  have lin: "D_linear c st first_log2 res_log2 lod_in images_in =
      bindE (D_state c st first_log2 res_log2 lod_in images_in first_log2)
        (\<lambda>(img, x). D_block c st first_log2 x first_log2)"
    by (simp add: D_linear_def D_state_def bindE_assoc)
  have grow: "D_grow c st first_log2 res_log2 lod_in images_in first_log2 (int L) =
      bindE (D_grow_input c st first_log2 res_log2 lod_in images_in first_log2 (int L))
        (\<lambda>x0. D_block c st first_log2 x0 first_log2)"
    by (subst D_grow_unfold) (simp cong: bindE_cong)
  from ag show ?thesis unfolding L lin grow D_agree_def by auto
qed


section \<open>The structure argument only selects the structure\<close>

lemma nf_structure [simp]: "nf (c\<lparr>structure_arg := s\<rparr>) = nf c"
  by (rule ext) (simp add: nf_def)

lemma PN_structure [simp]: "PN (c\<lparr>structure_arg := s\<rparr>) = PN c"
  by (rule ext) (simp add: PN_def)

lemma G_act_structure [simp]: "G_act (c\<lparr>structure_arg := s\<rparr>) = G_act c"
  by (rule ext) (simp add: G_act_def)

lemma dense_tile_structure [simp]: "dense_tile (c\<lparr>structure_arg := s\<rparr>) = dense_tile c"
  by (intro ext) (simp add: dense_tile_def)

lemma puzzle_structure [simp]:
  "puzzle_2parts_faces (c\<lparr>structure_arg := s\<rparr>) = puzzle_2parts_faces c"
  "puzzle_5parts_faces (c\<lparr>structure_arg := s\<rparr>) = puzzle_5parts_faces c"
  "puzzle_2parts_bedrooms (c\<lparr>structure_arg := s\<rparr>) = puzzle_2parts_bedrooms c"
  "puzzle_4parts_digits (c\<lparr>structure_arg := s\<rparr>) = puzzle_4parts_digits c"
  by (intro ext, simp add: puzzle_2parts_faces_def puzzle_5parts_faces_def
      puzzle_2parts_bedrooms_def puzzle_4parts_digits_def)+

lemma first_layer_structure [simp]: "first_layer (c\<lparr>structure_arg := s\<rparr>) = first_layer c"
  by (intro ext) (simp add: first_layer_def first_layer_assemble_def cong: if_cong)

lemma G_block_structure [simp]: "G_block (c\<lparr>structure_arg := s\<rparr>) = G_block c"
  by (intro ext) (simp add: G_block_def Let_def cong: if_cong)

lemma torgb_structure [simp]: "torgb (c\<lparr>structure_arg := s\<rparr>) = torgb c"
  by (intro ext) (simp add: torgb_def Let_def cong: if_cong)

lemma G_linear_loop_structure [simp]:
  "G_linear_loop (c\<lparr>structure_arg := s\<rparr>) st first_log2 res_log2 lod_in rs state =
   G_linear_loop c st first_log2 res_log2 lod_in rs state"
proof (induction rs arbitrary: state)
  case Nil
  then show ?case by (cases state) simp
next
  case (Cons r rs)
  then show ?case by (cases state) (simp add: Let_def cong: if_cong)
qed

lemma G_linear_structure [simp]: "G_linear (c\<lparr>structure_arg := s\<rparr>) = G_linear c"
  by (intro ext) (simp add: G_linear_def)

lemma G_grow_structure [simp]:
  "G_grow (c\<lparr>structure_arg := s\<rparr>) st first_log2 res_log2 lod_in x res lod =
   G_grow c st first_log2 res_log2 lod_in x res lod"
proof (induction "nat lod" arbitrary: x res lod)
  case 0
  then have "\<not> lod > 0" by simp
  then show ?case
    by (simp only: G_grow.simps[of "c\<lparr>structure_arg := s\<rparr>" st first_log2 res_log2 lod_in x res lod]
        G_grow.simps[of c st first_log2 res_log2 lod_in x res lod]) (simp add: Let_def cong: if_cong)
next
  case (Suc n)
  then have "n = nat (lod - 1)" by simp
  from Suc.hyps(1)[OF this]
  have ih: "\<And>y r. G_grow (c\<lparr>structure_arg := s\<rparr>) st first_log2 res_log2 lod_in y r (lod - 1)
               = G_grow c st first_log2 res_log2 lod_in y r (lod - 1)" .
  show ?case
    by (simp only: G_grow.simps[of "c\<lparr>structure_arg := s\<rparr>" st first_log2 res_log2 lod_in x res lod]
        G_grow.simps[of c st first_log2 res_log2 lod_in x res lod]) (simp add: ih Let_def cong: if_cong)
qed

lemma fromrgb_structure [simp]: "fromrgb (c\<lparr>structure_arg := s\<rparr>) = fromrgb c"
  by (intro ext) (simp add: fromrgb_def Let_def cong: if_cong)

lemma D_block_structure [simp]: "D_block (c\<lparr>structure_arg := s\<rparr>) = D_block c"
  by (intro ext) (simp add: D_block_def Let_def cong: if_cong)

lemma D_linear_loop_structure [simp]:
  "D_linear_loop (c\<lparr>structure_arg := s\<rparr>) st first_log2 res_log2 lod_in rs state =
   D_linear_loop c st first_log2 res_log2 lod_in rs state"
proof (induction rs arbitrary: state)
  case Nil
  then show ?case by (cases state) simp
next
  case (Cons r rs)
  then show ?case by (cases state) (simp add: Let_def cong: if_cong)
qed

lemma D_linear_structure [simp]: "D_linear (c\<lparr>structure_arg := s\<rparr>) = D_linear c"
  by (intro ext) (simp add: D_linear_def)

lemma D_grow_structure [simp]:
  "D_grow (c\<lparr>structure_arg := s\<rparr>) st first_log2 res_log2 lod_in images_in res lod =
   D_grow c st first_log2 res_log2 lod_in images_in res lod"
proof (induction "nat lod" arbitrary: res lod)
  case 0
  then have "\<not> lod > 0" by simp
  then show ?case
    by (simp only: D_grow.simps[of "c\<lparr>structure_arg := s\<rparr>" st first_log2 res_log2 lod_in images_in res lod]
        D_grow.simps[of c st first_log2 res_log2 lod_in images_in res lod]) (simp add: Let_def cong: if_cong)
next
  case (Suc n)
  then have "n = nat (lod - 1)" by simp
  from Suc.hyps(1)[OF this]
  have ih: "\<And>r. D_grow (c\<lparr>structure_arg := s\<rparr>) st first_log2 res_log2 lod_in images_in r (lod - 1)
               = D_grow c st first_log2 res_log2 lod_in images_in r (lod - 1)" .
  show ?case
    by (simp only: D_grow.simps[of "c\<lparr>structure_arg := s\<rparr>" st first_log2 res_log2 lod_in images_in res lod]
        D_grow.simps[of c st first_log2 res_log2 lod_in images_in res lod]) (simp add: ih Let_def cong: if_cong)
qed

lemma floor_log2_mono: "a \<le> b \<Longrightarrow> floor_log2 a \<le> floor_log2 b"
proof (induction a arbitrary: b rule: floor_log2.induct)
  case (1 n)
  show ?case
  proof (cases "n < 2")
    case True
    then show ?thesis by (subst floor_log2.simps) simp
  next
    case False
    then have b2: "\<not> b < 2" using "1.prems" by simp
    have "n div 2 \<le> b div 2" using "1.prems" by (rule div_le_mono)
    from "1.IH"[OF False this] show ?thesis
      by (subst floor_log2.simps, subst (2) floor_log2.simps) (simp add: False b2)
  qed
qed

lemma set_shape2_Inr: "set_shape2 t n = Inr u \<Longrightarrow> u = t"
  by (auto simp: set_shape2_def split: tensor.splits if_splits)

lemma set_shape4_Inr: "set_shape4 t c h w = Inr u \<Longrightarrow> u = t \<and> is_T4 t"
  by (auto simp: set_shape4_def split: tensor.splits if_splits)

lemma G_puzzle_linear:
  "G_puzzle (c\<lparr>structure_arg := Some ''linear''\<rparr>) st lod_in latents_in labels_in =
     bindE (int_log2 (resolution c)) (\<lambda>res_log2.
     if \<not> (resolution c = 2 ^ res_log2 \<and> resolution c \<ge> 4) then Inl AssertionError
     else
        bindE (int_log2 (firstblock_res c)) (\<lambda>first_log2.
        bindE (set_shape2 latents_in (case latent_size c of None \<Rightarrow> nat (nf c 0) | Some n \<Rightarrow> n)) (\<lambda>combo_in.
        bindE (set_shape2 labels_in (label_size c)) (\<lambda>_.
        G_linear c st first_log2 res_log2 lod_in combo_in))))"
  unfolding G_puzzle_def
  by (auto simp: Let_def bindE_def split: sum.splits option.splits)

lemma G_puzzle_recursive:
  "G_puzzle (c\<lparr>structure_arg := Some ''recursive''\<rparr>) st lod_in latents_in labels_in =
     bindE (int_log2 (resolution c)) (\<lambda>res_log2.
     if \<not> (resolution c = 2 ^ res_log2 \<and> resolution c \<ge> 4) then Inl AssertionError
     else
        bindE (int_log2 (firstblock_res c)) (\<lambda>first_log2.
        bindE (set_shape2 latents_in (case latent_size c of None \<Rightarrow> nat (nf c 0) | Some n \<Rightarrow> n)) (\<lambda>combo_in.
        bindE (set_shape2 labels_in (label_size c)) (\<lambda>_.
        G_grow c st first_log2 res_log2 lod_in combo_in first_log2 (int res_log2 - int first_log2)))))"
  unfolding G_puzzle_def
  by (auto simp: Let_def bindE_def split: sum.splits option.splits)

lemma D_puzzle_linear:
  "D_puzzle (c\<lparr>structure_arg := Some ''linear''\<rparr>) st lod_in images_in labels_in =
     bindE (int_log2 (resolution c)) (\<lambda>res_log2.
     if \<not> (resolution c = 2 ^ res_log2 \<and> resolution c \<ge> 4) then Inl AssertionError
     else
        bindE (int_log2 (firstblock_res c)) (\<lambda>first_log2.
        bindE (set_shape4 images_in (num_channels c) (resolution c) (resolution c)) (\<lambda>images_in.
        bindE (set_shape2 labels_in (label_size c)) (\<lambda>_.
        D_linear c st first_log2 res_log2 lod_in images_in))))"
  unfolding D_puzzle_def
  by (auto simp: Let_def bindE_def split: sum.splits option.splits)

lemma D_puzzle_recursive:
  "D_puzzle (c\<lparr>structure_arg := Some ''recursive''\<rparr>) st lod_in images_in labels_in =
     bindE (int_log2 (resolution c)) (\<lambda>res_log2.
     if \<not> (resolution c = 2 ^ res_log2 \<and> resolution c \<ge> 4) then Inl AssertionError
     else
        bindE (int_log2 (firstblock_res c)) (\<lambda>first_log2.
        bindE (set_shape4 images_in (num_channels c) (resolution c) (resolution c)) (\<lambda>images_in.
        bindE (set_shape2 labels_in (label_size c)) (\<lambda>_.
        D_grow c st first_log2 res_log2 lod_in images_in first_log2 (int res_log2 - int first_log2)))))"
  unfolding D_puzzle_def
  by (auto simp: Let_def bindE_def split: sum.splits option.splits)

lemma int_log2_Inr: "int_log2 n = Inr k \<Longrightarrow> k = floor_log2 n"
  by (auto simp: int_log2_def split: if_splits)




section \<open>The labels\<close>

lemma set_shape2_labels:
  "list_all (\<lambda>row. length row = n) r \<Longrightarrow> set_shape2 (T2 r) n = Inr (T2 r)"
  by (simp add: set_shape2_def)




section \<open>The blend at a transition of the generator\<close>

text \<open>
  The generator with its transition at the level \<open>res\<close> written out as the specification
  states it: the levels below \<open>res\<close> leave the features \<open>x\<close> and the image \<open>coarser\<close>, the
  level \<open>res\<close> gives \<open>finer = torgb(block(x, res), res)\<close> and
  \<open>blended = lerp_clip(finer, upscale2d(coarser), lod_in - lod)\<close> with
  \<open>lod = resolution_log2 - res\<close>, and the levels above \<open>res\<close> go on from \<open>blended\<close>.
\<close>

definition G_blend_lerp_clip_at ::
  "config \<Rightarrow> store \<Rightarrow> nat \<Rightarrow> nat \<Rightarrow> real \<Rightarrow> nat \<Rightarrow> tensor \<Rightarrow> tensor result" where
  "G_blend_lerp_clip_at c st first_log2 res_log2 lod_in res combo_in =
     bindE (G_block c st first_log2 combo_in first_log2) (\<lambda>x0.
     bindE (torgb c st res_log2 x0 first_log2) (\<lambda>img0.
     bindE (G_linear_loop c st first_log2 res_log2 lod_in [first_log2 + 1 ..< res] (x0, img0)) (\<lambda>(x, coarser).
     bindE (G_block c st first_log2 x res) (\<lambda>y.
     bindE (torgb c st res_log2 y res) (\<lambda>finer.
     bindE (upscale2d coarser (PyInt 2)) (\<lambda>coarser_upsampled.
     bindE (lerp_clip_t finer coarser_upsampled (lod_in - real_of_int (int res_log2 - int res))) (\<lambda>blended.
     bindE (G_linear_loop c st first_log2 res_log2 lod_in [res + 1 ..< res_log2 + 1] (y, blended))
       (\<lambda>(x, images_out). Inr images_out))))))))"

lemma G_linear_loop_append:
  "G_linear_loop c st first_log2 res_log2 lod_in (rs @ rs') s =
     bindE (G_linear_loop c st first_log2 res_log2 lod_in rs s)
       (\<lambda>s'. G_linear_loop c st first_log2 res_log2 lod_in rs' s')"
proof (induction rs arbitrary: s)
  case Nil
  then show ?case by (cases s) simp
next
  case (Cons r rs)
  obtain x img where s: "s = (x, img)" by (cases s)
  show ?case unfolding s by (simp add: Let_def bindE_assoc Cons.IH)
qed

lemma upt_split_at:
  assumes "a < res" "res \<le> b"
  shows "[a + 1 ..< b + 1] = [a + 1 ..< res] @ res # [res + 1 ..< b + 1]"
proof -
  have "[a + 1 ..< b + 1] = [a + 1 ..< res] @ [res ..< b + 1]"
    using upt_add_eq_append[of "a + 1" res "b + 1 - res"] assms by simp
  also have "[res ..< b + 1] = res # [res + 1 ..< b + 1]"
    using assms by (simp add: upt_conv_Cons)
  finally show ?thesis .
qed

lemma G_linear_blend_at:
  assumes "first_log2 < res" "res \<le> res_log2"
  shows "G_linear c st first_log2 res_log2 lod_in combo_in =
         G_blend_lerp_clip_at c st first_log2 res_log2 lod_in res combo_in"
  unfolding G_linear_def G_blend_lerp_clip_at_def upt_split_at[OF assms] G_linear_loop_append bindE_assoc
  by (rule bindE_cong[OF refl], rule bindE_cong[OF refl], rule bindE_cong[OF refl])
     (auto simp: Let_def bindE_assoc)



section \<open>The blend at a transition of the discriminator\<close>

text \<open>
  The discriminator with its transition at the level \<open>res\<close> written out, the blending
  function being a parameter: the levels above \<open>res\<close> leave the image \<open>img\<close> and the
  features \<open>x\<close>, the level \<open>res\<close> gives \<open>x = block(x, res)\<close>,
  \<open>y = fromrgb(downscale2d(img), res - 1)\<close> and \<open>blended = blend(x, y, lod_in - lod)\<close> with
  \<open>lod = resolution_log2 - res\<close>, and the levels below \<open>res\<close> go on from \<open>blended\<close>.
\<close>

definition D_blend_at ::
  "(tensor \<Rightarrow> tensor \<Rightarrow> real \<Rightarrow> tensor result) \<Rightarrow>
   config \<Rightarrow> store \<Rightarrow> nat \<Rightarrow> nat \<Rightarrow> real \<Rightarrow> nat \<Rightarrow> tensor \<Rightarrow> tensor result" where
  "D_blend_at blend c st first_log2 res_log2 lod_in res images_in =
     bindE (fromrgb c st res_log2 images_in res_log2) (\<lambda>x0.
     bindE (D_linear_loop c st first_log2 res_log2 lod_in (rev [res + 1 ..< res_log2 + 1]) (images_in, x0)) (\<lambda>(img, x).
     bindE (D_block c st first_log2 x res) (\<lambda>x.
     bindE (downscale2d img (PyInt 2)) (\<lambda>img.
     bindE (fromrgb c st res_log2 img (res - 1)) (\<lambda>y.
     bindE (blend x y (lod_in - real_of_int (int res_log2 - int res))) (\<lambda>blended.
     bindE (D_linear_loop c st first_log2 res_log2 lod_in (rev [first_log2 + 1 ..< res]) (img, blended)) (\<lambda>(img, x).
     D_block c st first_log2 x first_log2)))))))"

text \<open>A small configuration and a 4 by 4 image with one channel, to evaluate the networks on.\<close>

definition tiny_config :: config where
  "tiny_config = default_config\<lparr>fmap_base := 1, fmap_decay := 0, fmap_max := 1, use_wscale := False,
     use_pixelnorm := False, normalize_latents := False, mbstd_group_size := 1, fused_scale := False,
     firstblock_res := 2, resolution := 4\<rparr>"

definition ones4 :: tensor where
  "ones4 = T4 [[[[1, 1, 1, 1], [1, 1, 1, 1], [1, 1, 1, 1], [1, 1, 1, 1]]]]"

lemma D_linear_blend_at:
  assumes "first_log2 < res" "res \<le> res_log2"
  shows "D_linear c st first_log2 res_log2 lod_in images_in =
         D_blend_at lerp_clip_t c st first_log2 res_log2 lod_in res images_in"
  unfolding D_linear_def D_blend_at_def upt_split_at[OF assms] rev_append rev.simps append_assoc
    D_linear_loop_append bindE_assoc
  by (rule bindE_cong[OF refl], rule bindE_cong[OF refl])
     (auto simp: Let_def bindE_assoc D_linear_loop_append)

lemma replicate_numeral: "replicate (numeral k) x = x # replicate (pred_numeral k) x"
  by (simp add: numeral_eq_Suc)

lemmas eval_defs = get_weight_def get_variable_def tf_transpose_0132_def tf_pad_hw_def
  slice_hw_def tf_add_n4_def var_scale_def tf_nn_conv2d_transpose_def tf_nn_conv2d_def
  tf_nn_avg_pool_def tf_matmul_def dim1_def dim2_def dim3_def height_def width_def same_pad_def
  same_out_def at2_def upscale_plane_def upt_conv_Cons Let_def replicate_numeral
  conv2d_def dense_def apply_bias_def leaky_relu_def downscale2d_def upscale2d_def D_act_def

lemmas eval_blend = lerp_t_def lerp_clip_t_def ew2_def same_shape2_def same_shape4_def
  clip_by_value_def

lemma nf_tiny [simp]: "nf tiny_config s = 1"
  by (simp add: nf_def tiny_config_def default_config_def py_int_def)

lemma tiny_fields [simp]: "use_wscale tiny_config = False" "fused_scale tiny_config = False"
  "mbstd_group_size tiny_config = 1" "num_channels tiny_config = 1"
  by (simp_all add: tiny_config_def default_config_def)

lemma D_linear_tiny: "D_linear tiny_config (\<lambda>_ _. 1) 1 2 2 ones4 = Inr (T2 [[38]])"
  by (simp add: D_linear_def ones4_def fromrgb_def D_block_def eval_defs eval_blend)

lemma D_blend_lerp_tiny:
  "D_blend_at lerp_t tiny_config (\<lambda>_ _. 1) 1 2 2 2 ones4 = Inr (T2 [[- (274 / 5)]])"
  by (simp add: D_blend_at_def ones4_def fromrgb_def D_block_def eval_defs eval_blend)





section \<open>A mode that \<^verbatim>\<open>first_layer\<close> does not know\<close>

lemma latent_slices_T2:
  "latent_slices (T2 r) s sizes = Inl ValueError \<or> (\<exists>z. latent_slices (T2 r) s sizes = Inr z)"
proof (induction sizes arbitrary: s)
  case Nil
  show ?case by simp
next
  case (Cons sz sizes)
  show ?case
    using Cons.IH[of "s + sz"] by (auto simp: tf_slice_def)
qed

lemma rank2_layers:
  "\<exists>r'. apply_bias st scope (T2 r) = T2 r'" "\<exists>r'. G_act c (T2 r) = T2 r'" "\<exists>r'. PN c (T2 r) = T2 r'"
  "\<exists>r'. pixel_norm (T2 r) eps = T2 r'"
  by (simp_all add: apply_bias_def G_act_def leaky_relu_def tf_nn_relu_def PN_def pixel_norm_def)

lemma rank2_after_first_layer: "\<exists>r'. PN c (G_act c (apply_bias st scope (T2 r))) = T2 r'"
  by (metis rank2_layers(1,2,3))

lemma conv2d_rank2: "conv2d st scope (T2 r) fmaps 3 gain wscale = Inl ValueError"
  by (simp add: conv2d_def get_weight_def tf_nn_conv2d_def Let_def)

text \<open>The modes that \<^verbatim>\<open>first_layer\<close> tests for.\<close>

definition supported_modes :: "string option set" where
  "supported_modes =
     {Some ''2parts-faces'', Some ''5parts-faces'', Some ''2parts-bedrooms'', Some ''4parts-digits''}"

lemma first_layer_assemble_unsupported:
  assumes "mode c \<notin> supported_modes"
  shows "first_layer_assemble c st scope x res =
         bindE (latent_slices x 0 (latents_sizes c)) (\<lambda>z. Inr x)"
  using assms by (simp add: first_layer_assemble_def supported_modes_def)

lemma first_layer_unsupported:
  assumes "mode c \<notin> supported_modes"
  shows "first_layer c st scope (T2 r) res = Inl ValueError \<or>
         (\<exists>r'. first_layer c st scope (T2 r) res = Inr (T2 r'))"
  using latent_slices_T2[of r 0 "latents_sizes c"] rank2_after_first_layer[of c st scope r]
  by (auto simp: first_layer_def first_layer_assemble_unsupported[OF assms])

lemma G_block_unsupported:
  assumes "mode c \<notin> supported_modes"
  shows "G_block c st first_log2 (T2 r) first_log2 = Inl ValueError"
proof -
  obtain r' where r': "(if normalize_latents c then pixel_norm (T2 r) (pixelnorm_epsilon c) else T2 r) = T2 r'"
    using rank2_layers(4)[of r "pixelnorm_epsilon c"] by (cases "normalize_latents c") auto
  from first_layer_unsupported[OF assms, of st "[res_scope first_log2]" r' first_log2]
  show ?thesis
    unfolding G_block_def Let_def r' by (auto simp: conv2d_rank2)
qed

lemma G_linear_unsupported:
  assumes "mode c \<notin> supported_modes"
  shows "G_linear c st first_log2 res_log2 lod_in (T2 r) = Inl ValueError"
  by (simp add: G_linear_def G_block_unsupported[OF assms])

lemma G_grow_unsupported:
  assumes "mode c \<notin> supported_modes"
  shows "G_grow c st first_log2 res_log2 lod_in (T2 r) first_log2 lod = Inl ValueError"
  by (subst G_grow.simps) (simp add: G_block_unsupported[OF assms])

lemma set_shape2_cases:
  "set_shape2 t n = Inl ValueError \<or> (\<exists>r. t = T2 r \<and> set_shape2 t n = Inr (T2 r))"
  by (auto simp: set_shape2_def split: tensor.splits)

lemma G_puzzle_unsupported:
  assumes "mode c \<notin> supported_modes"
  shows "\<exists>e. G_puzzle c st lod_in latents_in labels_in = Inl e"
proof -
  note u = G_linear_unsupported[OF assms] G_grow_unsupported[OF assms]
  consider "set_shape2 latents_in (case latent_size c of None \<Rightarrow> nat (nf c 0) | Some n \<Rightarrow> n) = Inl ValueError"
    | r where "latents_in = T2 r"
      "set_shape2 latents_in (case latent_size c of None \<Rightarrow> nat (nf c 0) | Some n \<Rightarrow> n) = Inr (T2 r)"
    using set_shape2_cases by blast
  then show ?thesis
  proof cases
    case 1
    then show ?thesis
      unfolding G_puzzle_def Let_def by (auto simp: bindE_def split: sum.splits)
  next
    case 2
    show ?thesis
      unfolding G_puzzle_def Let_def 2(2)
      by (auto simp: bindE_def u split: sum.splits option.splits)
  qed
qed


text \<open>
  A configuration with a mode that \<^verbatim>\<open>first_layer\<close> does not test for, and latent vectors of
  size 1.
\<close>

definition bad_mode_config :: config where
  "bad_mode_config = default_config\<lparr>mode := Some ''3parts-faces'', latents_sizes := [1],
     latent_size := Some 1, normalize_latents := False, use_pixelnorm := False\<rparr>"

lemma bad_mode_unsupported: "mode bad_mode_config \<notin> supported_modes"
  by (simp add: bad_mode_config_def supported_modes_def default_config_def)

lemma bad_mode_fields:
  "resolution bad_mode_config = 32" "firstblock_res bad_mode_config = 8"
  "latent_size bad_mode_config = Some 1" "label_size bad_mode_config = 0"
  "structure_arg bad_mode_config = None" "is_template_graph bad_mode_config = False"
  "latents_sizes bad_mode_config = [1]" "use_pixelnorm bad_mode_config = False"
  "use_leakyrelu bad_mode_config = True"
  by (simp_all add: bad_mode_config_def default_config_def)

text \<open>
  C2, as stated, fails: with the mode \<^verbatim>\<open>'3parts-faces'\<close> the function \<^verbatim>\<open>first_layer\<close> raises
  nothing and returns a tensor (the latent vectors with bias and activation applied); the
  build of the generator fails afterwards with the \<^verbatim>\<open>ValueError\<close> of a shape mismatch, the
  error that latent vectors of a wrong size give under a supported mode.
\<close>

theorem unsupported_mode_configuration_error_counterexample:
  "first_layer bad_mode_config (\<lambda>_ _. 0) [''8x8''] (T2 [[1]]) 3 = Inr (T2 [[1]]) \<and>
   G_puzzle bad_mode_config (\<lambda>_ _. 0) 0 (T2 [[1]]) (T2 [[]]) = Inl ValueError \<and>
   G_puzzle (bad_mode_config\<lparr>mode := Some ''2parts-bedrooms''\<rparr>) (\<lambda>_ _. 0) 0 (T2 [[1, 2]]) (T2 [[]]) =
     Inl ValueError"
proof (intro conjI)
  show "first_layer bad_mode_config (\<lambda>_ _. 0) [''8x8''] (T2 [[1]]) 3 = Inr (T2 [[1]])"
    by (simp add: first_layer_def first_layer_assemble_unsupported[OF bad_mode_unsupported]
          bad_mode_fields tf_slice_def PN_def G_act_def leaky_relu_def apply_bias_def
          get_variable_def dim1_def)
  show "G_puzzle bad_mode_config (\<lambda>_ _. 0) 0 (T2 [[1]]) (T2 [[]]) = Inl ValueError"
    by (simp add: G_puzzle_def bad_mode_fields int_log2_def floor_log2.simps set_shape2_def
          Let_def G_grow_unsupported[OF bad_mode_unsupported])
  show "G_puzzle (bad_mode_config\<lparr>mode := Some ''2parts-bedrooms''\<rparr>) (\<lambda>_ _. 0) 0 (T2 [[1, 2]]) (T2 [[]]) =
     Inl ValueError"
    by (simp add: G_puzzle_def bad_mode_config_def default_config_def int_log2_def
          floor_log2.simps set_shape2_def Let_def)
qed

text \<open>
  C2, amended: for every mode that is not one of the supported puzzle modes,
  \<^verbatim>\<open>first_layer\<close> raises no error of its own (after slicing the latent vectors it leaves
  \<open>x\<close> as it is), the first block of the generator then fails in \<^verbatim>\<open>conv2d\<close> with the
  \<^verbatim>\<open>ValueError\<close> of an input that is not of rank 4, and building the generator graph fails.
\<close>

theorem unsupported_mode_fails_in_first_conv2d:
  assumes "mode c \<notin> supported_modes"
  shows "first_layer_assemble c st scope x res =
           bindE (latent_slices x 0 (latents_sizes c)) (\<lambda>z. Inr x) \<and>
         G_block c st first_log2 (T2 r) first_log2 = Inl ValueError \<and>
         (\<exists>e. G_puzzle c st lod_in latents_in labels_in = Inl e)"
  using first_layer_assemble_unsupported[OF assms] G_block_unsupported[OF assms]
    G_puzzle_unsupported[OF assms]
  by simp

theorem unsupported_mode_fails_in_first_conv2d_witness:
  "mode bad_mode_config \<notin> supported_modes \<and>
   first_layer_assemble bad_mode_config (\<lambda>_ _. 0) [''8x8''] (T2 [[1]]) 3 =
     bindE (latent_slices (T2 [[1]]) 0 (latents_sizes bad_mode_config)) (\<lambda>z. Inr (T2 [[1]])) \<and>
   G_block bad_mode_config (\<lambda>_ _. 0) 3 (T2 [[1]]) 3 = Inl ValueError \<and>
   (\<exists>e. G_puzzle bad_mode_config (\<lambda>_ _. 0) 0 (T2 [[1]]) (T2 [[]]) = Inl e)"
  using unsupported_mode_fails_in_first_conv2d
    [of bad_mode_config "\<lambda>_ _. 0" "[''8x8'']" "T2 [[1]]" 3 3 "[[1]]" 0 "T2 [[1]]" "T2 [[]]"]
  by (simp add: bad_mode_unsupported)

end
